theory Spec2Isabelle
  imports Main
begin

section \<open>Values of the Python runtime\<close>

text \<open>
  The adapter of \<^verbatim>\<open>askDenodo.py\<close> handles whatever \<^verbatim>\<open>response.json()\<close> hands back: any
  parsed JSON value. A float is kept by its exact value: \<open>Finite s m e\<close> stands for
  \<open>(-1)^s * m * 2^e\<close> (every double is of this form), and the parser of Python also
  yields the two infinities and NaN. A dict is an association list in insertion order;
  the keys of a dict are distinct, and every key of a parsed JSON object is a string.
  A \<open>char\<close> stands for one code point of a Python string.
\<close>

datatype pyfloat = Finite bool nat int | Infinity bool | NaN

datatype pyval =
    PNone
  | PBool bool
  | PInt int
  | PFloat pyfloat
  | PStr string
  | PList "pyval list"
  | PDict "(string \<times> pyval) list"

text \<open>The exceptions that the operations can raise once a result is in hand.\<close>

datatype py_error = AttributeError | TypeError | ValueError | OverflowError | KeyError

text \<open>Sequencing of steps that may raise: the first exception ends the computation.\<close>

definition and_then :: "py_error + 'a \<Rightarrow> ('a \<Rightarrow> py_error + 'b) \<Rightarrow> py_error + 'b" where
  "and_then r f = (case r of Inl e \<Rightarrow> Inl e | Inr x \<Rightarrow> f x)"

text \<open>Truth value of an object, as \<^verbatim>\<open>if x\<close> and \<^verbatim>\<open>not x\<close> test it.\<close>

fun truthy :: "pyval \<Rightarrow> bool" where
  "truthy PNone = False"
| "truthy (PBool b) = b"
| "truthy (PInt n) = (n \<noteq> 0)"
| "truthy (PFloat (Finite s m e)) = (m \<noteq> 0)"
| "truthy (PFloat (Infinity s)) = True"
| "truthy (PFloat NaN) = True"
| "truthy (PStr s) = (s \<noteq> [])"
| "truthy (PList xs) = (xs \<noteq> [])"
| "truthy (PDict d) = (d \<noteq> [])"

text \<open>\<^verbatim>\<open>k in s\<close> for two strings: \<open>k\<close> occurs in \<open>s\<close> as a contiguous piece.\<close>

fun substring :: "string \<Rightarrow> string \<Rightarrow> bool" where
  "substring k [] = (k = [])"
| "substring k (c # cs) = (take (length k) (c # cs) = k \<or> substring k cs)"

text \<open>
  \<^verbatim>\<open>"key" in x\<close> with a string on the left: a key of a dict, an element of a list, a piece
  of a string; a number, a bool or None on the right raises TypeError.
\<close>

fun py_in :: "string \<Rightarrow> pyval \<Rightarrow> py_error + bool" where
  "py_in k (PDict d) = Inr (k \<in> set (map fst d))"
| "py_in k (PList xs) = Inr (PStr k \<in> set xs)"
| "py_in k (PStr s) = Inr (substring k s)"
| "py_in k PNone = Inl TypeError"
| "py_in k (PBool b) = Inl TypeError"
| "py_in k (PInt n) = Inl TypeError"
| "py_in k (PFloat f) = Inl TypeError"

text \<open>\<^verbatim>\<open>x.get(key, default)\<close>: only a dict has the method.\<close>

fun py_get :: "pyval \<Rightarrow> string \<Rightarrow> pyval \<Rightarrow> py_error + pyval" where
  "py_get (PDict d) k dflt = Inr (case map_of d k of Some v \<Rightarrow> v | None \<Rightarrow> dflt)"
| "py_get PNone k dflt = Inl AttributeError"
| "py_get (PBool b) k dflt = Inl AttributeError"
| "py_get (PInt n) k dflt = Inl AttributeError"
| "py_get (PFloat f) k dflt = Inl AttributeError"
| "py_get (PStr s) k dflt = Inl AttributeError"
| "py_get (PList xs) k dflt = Inl AttributeError"

text \<open>\<^verbatim>\<open>x["key"]\<close> with a string index: a list and a string want an integer.\<close>

fun py_getitem :: "pyval \<Rightarrow> string \<Rightarrow> py_error + pyval" where
  "py_getitem (PDict d) k = (case map_of d k of Some v \<Rightarrow> Inr v | None \<Rightarrow> Inl KeyError)"
| "py_getitem PNone k = Inl TypeError"
| "py_getitem (PBool b) k = Inl TypeError"
| "py_getitem (PInt n) k = Inl TypeError"
| "py_getitem (PFloat f) k = Inl TypeError"
| "py_getitem (PStr s) k = Inl TypeError"
| "py_getitem (PList xs) k = Inl TypeError"

text \<open>
  The items a \<^verbatim>\<open>for\<close> loop, \<^verbatim>\<open>enumerate\<close> or \<^verbatim>\<open>join\<close> draws from an object: the elements
  of a list, the characters of a string, the keys of a dict.
\<close>

fun py_iter :: "pyval \<Rightarrow> py_error + pyval list" where
  "py_iter (PList xs) = Inr xs"
| "py_iter (PStr s) = Inr (map (\<lambda>c. PStr [c]) s)"
| "py_iter (PDict d) = Inr (map (\<lambda>kv. PStr (fst kv)) d)"
| "py_iter PNone = Inl TypeError"
| "py_iter (PBool b) = Inl TypeError"
| "py_iter (PInt n) = Inl TypeError"
| "py_iter (PFloat f) = Inl TypeError"

fun py_len :: "pyval \<Rightarrow> py_error + nat" where
  "py_len (PList xs) = Inr (length xs)"
| "py_len (PStr s) = Inr (length s)"
| "py_len (PDict d) = Inr (length d)"
| "py_len PNone = Inl TypeError"
| "py_len (PBool b) = Inl TypeError"
| "py_len (PInt n) = Inl TypeError"
| "py_len (PFloat f) = Inl TypeError"

subsection \<open>Text of a value\<close>

definition digit_char :: "nat \<Rightarrow> char" where
  "digit_char d = ''0123456789'' ! d"

fun str_nat :: "nat \<Rightarrow> string" where
  "str_nat n = (if n < 10 then [digit_char n] else str_nat (n div 10) @ [digit_char (n mod 10)])"

declare str_nat.simps [simp del]

definition str_int :: "int \<Rightarrow> string" where
  "str_int n = (if n < 0 then ''-'' @ str_nat (nat (- n)) else str_nat (nat n))"

text \<open>
  What an f-string puts for \<^verbatim>\<open>{x}\<close>: a string as it is, None, a bool and an int by their
  literals. The text of a float (its shortest decimal form) and of a list or a dict (the
  \<^verbatim>\<open>repr\<close> of the items) is the runtime's business and no operation depends on it, so
  it is the parameter \<open>rp\<close>.
\<close>

fun py_str :: "(pyval \<Rightarrow> string) \<Rightarrow> pyval \<Rightarrow> string" where
  "py_str rp (PStr s) = s"
| "py_str rp PNone = ''None''"
| "py_str rp (PBool b) = (if b then ''True'' else ''False'')"
| "py_str rp (PInt n) = str_int n"
| "py_str rp (PFloat f) = rp (PFloat f)"
| "py_str rp (PList xs) = rp (PList xs)"
| "py_str rp (PDict d) = rp (PDict d)"

fun join_strs :: "string \<Rightarrow> string list \<Rightarrow> string" where
  "join_strs sep [] = []"
| "join_strs sep [s] = s"
| "join_strs sep (s # t # ss) = s @ sep @ join_strs sep (t # ss)"

fun str_items :: "pyval list \<Rightarrow> py_error + string list" where
  "str_items [] = Inr []"
| "str_items (PStr s # vs) = and_then (str_items vs) (\<lambda>ss. Inr (s # ss))"
| "str_items (v # vs) = Inl TypeError"

text \<open>\<^verbatim>\<open>sep.join(x)\<close>: \<open>x\<close> must be iterable and each of its items a string.\<close>

definition py_join :: "string \<Rightarrow> pyval \<Rightarrow> py_error + string" where
  "py_join sep x =
     and_then (py_iter x) (\<lambda>items.
     and_then (str_items items) (\<lambda>ss. Inr (join_strs sep ss)))"

subsection \<open>The format \<^verbatim>\<open>.4f\<close>\<close>

text \<open>\<open>n / d\<close> rounded to the nearest natural number, a tie to the even one.\<close>

definition round_half_even :: "nat \<Rightarrow> nat \<Rightarrow> nat" where
  "round_half_even n d =
     (let q = n div d; r = n mod d
      in if d < 2 * r \<or> (2 * r = d \<and> odd q) then q + 1 else q)"

definition pad4 :: "nat \<Rightarrow> string" where
  "pad4 n = [digit_char (n div 1000 mod 10), digit_char (n div 100 mod 10),
             digit_char (n div 10 mod 10), digit_char (n mod 10)]"

text \<open>\<open>q\<close> counts ten-thousandths; the sign is printed also when \<open>q\<close> is zero.\<close>

definition fixed4 :: "bool \<Rightarrow> nat \<Rightarrow> string" where
  "fixed4 neg q = (if neg then ''-'' else []) @ str_nat (q div 10000) @ ''.'' @ pad4 (q mod 10000)"

fun format_float_4f :: "pyfloat \<Rightarrow> string" where
  "format_float_4f (Finite s m e) =
     fixed4 s (if 0 \<le> e then m * 2 ^ nat e * 10000
               else round_half_even (m * 10000) (2 ^ nat (- e)))"
| "format_float_4f (Infinity s) = (if s then ''-inf'' else ''inf'')"
| "format_float_4f NaN = ''nan''"

fun bit_length :: "nat \<Rightarrow> nat" where
  "bit_length n = (if n = 0 then 0 else Suc (bit_length (n div 2)))"

declare bit_length.simps [simp del]

text \<open>
  An int is turned into a double before it is formatted: exact below \<open>2^53\<close>, else
  rounded to 53 significant bits (a tie to even); OverflowError when the rounded value
  \<open>q * 2^k\<close> has more than 1024 bits, that is from \<open>2^1024\<close> on.
\<close>

definition float_of_int :: "int \<Rightarrow> py_error + pyfloat" where
  "float_of_int n =
     (let a = nat \<bar>n\<bar>; k = bit_length a - 53; q = round_half_even a (2 ^ k)
      in if 1024 < bit_length q + k then Inl OverflowError
         else Inr (Finite (n < 0) q (int k)))"

text \<open>
  \<^verbatim>\<open>{x:.4f}\<close>: a float, an int or a bool (an int to Python) is printed with four decimals;
  a string raises ValueError, and None, a list or a dict raise TypeError.
\<close>

fun format_4f :: "pyval \<Rightarrow> py_error + string" where
  "format_4f (PFloat f) = Inr (format_float_4f f)"
| "format_4f (PInt n) = and_then (float_of_int n) (\<lambda>f. Inr (format_float_4f f))"
| "format_4f (PBool b) = and_then (float_of_int (if b then 1 else 0)) (\<lambda>f. Inr (format_float_4f f))"
| "format_4f (PStr s) = Inl ValueError"
| "format_4f PNone = Inl TypeError"
| "format_4f (PList xs) = Inl TypeError"
| "format_4f (PDict d) = Inl TypeError"

section \<open>The transport client\<close>

text \<open>
  One HTTP call as \<^verbatim>\<open>make_denodo_request\<close> issues it (lines 17 to 33), and what comes
  back: either some step of the call raises an exception \<open>e\<close> (the connection, the
  timeout of 120 seconds, \<^verbatim>\<open>raise_for_status\<close>, the JSON decoder), kept by its text
  \<^verbatim>\<open>str(e)\<close>, or the body parses to a value. The backend is a parameter of the model.
  Each operation awaits its one call and then formats the result, so a call is a
  function application here. Not modelled: a cancellation of the task, which is no
  \<^verbatim>\<open>Exception\<close> and passes the handler of line 32, and a failure to build the client.
\<close>

datatype http_verb = GET | POST

record http_call =
  call_verb :: http_verb
  call_url :: string
  call_params :: "(string \<times> pyval) list option"
  call_json :: "(string \<times> pyval) list option"
  call_headers :: "(string \<times> string) list"
  call_auth :: "(string \<times> string) option"
  call_timeout :: nat

datatype http_reply = Raises string | Body pyval

type_synonym backend = "http_call \<Rightarrow> http_reply"

definition API_BASE_URL :: string where
  "API_BASE_URL = ''http://localhost:8008''"

definition DEFAULT_HEADERS :: "(string \<times> string) list" where
  "DEFAULT_HEADERS = [(''Content-Type'', ''application/json''), (''Accept'', ''application/json'')]"

text \<open>
  \<^verbatim>\<open>method.upper()\<close> is only ever compared with \<^verbatim>\<open>"GET"\<close> and \<^verbatim>\<open>"POST"\<close>. The letters a to
  z go to A to Z; no other character below code point 256 turns into one of the letters
  of these two words in a way that could complete them, so it is left as it is.
\<close>

definition upper_char :: "char \<Rightarrow> char" where
  "upper_char c =
     (case map_of (zip ''abcdefghijklmnopqrstuvwxyz'' ''ABCDEFGHIJKLMNOPQRSTUVWXYZ'') c of
        Some u \<Rightarrow> u | None \<Rightarrow> c)"

definition upper :: "string \<Rightarrow> string" where
  "upper s = map upper_char s"

text \<open>Line 33: a caught exception becomes a dict with the one key \<^verbatim>\<open>error\<close>.\<close>

definition reply_value :: "http_reply \<Rightarrow> pyval" where
  "reply_value r = (case r of Raises msg \<Rightarrow> PDict [(''error'', PStr msg)] | Body v \<Rightarrow> v)"

text \<open>
  The result is paired with the calls that went out, in order, so that a path that
  never reaches the network shows as the empty list.
\<close>

definition make_denodo_request ::
  "backend \<Rightarrow> string \<Rightarrow> string \<Rightarrow> (string \<times> pyval) list option \<Rightarrow>
   (string \<times> pyval) list option \<Rightarrow> (string \<times> string) option \<Rightarrow> http_call list \<times> pyval" where
  "make_denodo_request net endpoint method params json_data auth =
     (let url = API_BASE_URL @ ''/'' @ endpoint in
      if upper method = ''GET'' then
        (let c = \<lparr>call_verb = GET, call_url = url, call_params = params, call_json = None,
                  call_headers = DEFAULT_HEADERS, call_auth = auth, call_timeout = 120\<rparr>
         in ([c], reply_value (net c)))
      else if upper method = ''POST'' then
        (let c = \<lparr>call_verb = POST, call_url = url, call_params = params,
                  call_json = json_data, call_headers = DEFAULT_HEADERS, call_auth = auth,
                  call_timeout = 120\<rparr>
         in ([c], reply_value (net c)))
      else ([], PNone))"

section \<open>The five operations\<close>

text \<open>Lines 50, 99, 141, 170 and 210: the credentials of a call.\<close>

definition basic_auth :: "string \<Rightarrow> string \<Rightarrow> (string \<times> string) option" where
  "basic_auth username password =
     (if username \<noteq> [] \<and> password \<noteq> [] then Some (username, password) else None)"

text \<open>
  Lines 68 and 69, repeated at 113, 151, 180 and 223 (there with another literal): the
  test that ends an operation early. \<open>None\<close> means that the operation goes on to
  format the result.
\<close>

definition early_return :: "(pyval \<Rightarrow> string) \<Rightarrow> string \<Rightarrow> pyval \<Rightarrow> (py_error + string) option" where
  "early_return rp no_response result =
     (if truthy result then
        (case py_in ''error'' result of
           Inl e \<Rightarrow> Some (Inl e)
         | Inr True \<Rightarrow>
             Some (and_then (py_get result ''error'' (PStr ''Unknown error occurred''))
                     (\<lambda>v. Inr (''Error: '' @ py_str rp v)))
         | Inr False \<Rightarrow> None)
      else Some (Inr no_response))"

subsection \<open>answer_question\<close>

definition answer_question_body ::
  "string \<Rightarrow> bool \<Rightarrow> string \<Rightarrow> string \<Rightarrow> string \<Rightarrow> (string \<times> pyval) list" where
  "answer_question_body question plot mode use_views custom_instructions =
     [(''question'', PStr question), (''plot'', PBool plot), (''mode'', PStr mode),
      (''markdown_response'', PBool True), (''verbose'', PBool True)]
     @ (if use_views \<noteq> [] then [(''use_views'', PStr use_views)] else [])
     @ (if custom_instructions \<noteq> [] then [(''custom_instructions'', PStr custom_instructions)]
        else [])"

text \<open>Lines 68 to 84, shared word for word by lines 113 to 129.\<close>

definition answer_question_render :: "(pyval \<Rightarrow> string) \<Rightarrow> pyval \<Rightarrow> py_error + string" where
  "answer_question_render rp result =
     (case early_return rp ''Failed to get a response'' result of
        Some r \<Rightarrow> r
      | None \<Rightarrow>
          and_then (py_get result ''answer'' (PStr ''No answer provided'')) (\<lambda>answer.
          and_then (py_get result ''sql_query'' (PStr [])) (\<lambda>sql_query.
          and_then (py_get result ''tables_used'' (PList [])) (\<lambda>tables_used.
          and_then (if truthy tables_used then py_join '', '' tables_used else Inr ''None'')
            (\<lambda>tables.
             Inr (''\<newline>Answer: '' @ py_str rp answer
                @ ''\<newline>\<newline>SQL Query: ''
                @ (if truthy sql_query then py_str rp sql_query else ''No SQL query generated'')
                @ ''\<newline>\<newline>Tables Used: '' @ tables @ ''\<newline>''))))))"

definition answer_question ::
  "backend \<Rightarrow> (pyval \<Rightarrow> string) \<Rightarrow> string \<Rightarrow> string \<Rightarrow> string \<Rightarrow> bool \<Rightarrow> string \<Rightarrow> string \<Rightarrow>
   string \<Rightarrow> http_call list \<times> (py_error + string)" where
  "answer_question net rp question username password plot mode use_views custom_instructions =
     (let auth = basic_auth username password;
          json_data = answer_question_body question plot mode use_views custom_instructions;
          (sent, result) =
            make_denodo_request net ''answerQuestion'' ''POST'' None (Some json_data) auth
      in (sent, answer_question_render rp result))"

subsection \<open>answer_data_question\<close>

definition answer_data_question_body :: "string \<Rightarrow> bool \<Rightarrow> string \<Rightarrow> (string \<times> pyval) list" where
  "answer_data_question_body question plot use_views =
     [(''question'', PStr question), (''plot'', PBool plot),
      (''markdown_response'', PBool True), (''verbose'', PBool True)]
     @ (if use_views \<noteq> [] then [(''use_views'', PStr use_views)] else [])"

definition answer_data_question ::
  "backend \<Rightarrow> (pyval \<Rightarrow> string) \<Rightarrow> string \<Rightarrow> string \<Rightarrow> string \<Rightarrow> bool \<Rightarrow> string \<Rightarrow>
   http_call list \<times> (py_error + string)" where
  "answer_data_question net rp question username password plot use_views =
     (let auth = basic_auth username password;
          json_data = answer_data_question_body question plot use_views;
          (sent, result) =
            make_denodo_request net ''answerDataQuestion'' ''POST'' None (Some json_data) auth
      in (sent, answer_question_render rp result))"

subsection \<open>answer_metadata_question\<close>

definition answer_metadata_question_body :: "string \<Rightarrow> (string \<times> pyval) list" where
  "answer_metadata_question_body question =
     [(''question'', PStr question), (''markdown_response'', PBool True),
      (''verbose'', PBool True)]"

text \<open>Lines 151 to 157.\<close>

definition answer_metadata_question_render :: "(pyval \<Rightarrow> string) \<Rightarrow> pyval \<Rightarrow> py_error + string" where
  "answer_metadata_question_render rp result =
     (case early_return rp ''Failed to get a response'' result of
        Some r \<Rightarrow> r
      | None \<Rightarrow>
          and_then (py_get result ''answer'' (PStr ''No answer provided'')) (\<lambda>answer.
          Inr (''Answer: '' @ py_str rp answer)))"

definition answer_metadata_question ::
  "backend \<Rightarrow> (pyval \<Rightarrow> string) \<Rightarrow> string \<Rightarrow> string \<Rightarrow> string \<Rightarrow>
   http_call list \<times> (py_error + string)" where
  "answer_metadata_question net rp question username password =
     (let auth = basic_auth username password;
          json_data = answer_metadata_question_body question;
          (sent, result) =
            make_denodo_request net ''answerMetadataQuestion'' ''POST'' None (Some json_data) auth
      in (sent, answer_metadata_question_render rp result))"

subsection \<open>similarity_search\<close>

definition similarity_search_params :: "string \<Rightarrow> int \<Rightarrow> (string \<times> pyval) list" where
  "similarity_search_params query n_results =
     [(''query'', PStr query), (''n_results'', PInt n_results), (''scores'', PBool True)]"

text \<open>Lines 189 to 193: the body of the loop, for the item numbered \<open>i\<close>.\<close>

definition format_result :: "(pyval \<Rightarrow> string) \<Rightarrow> nat \<Rightarrow> pyval \<Rightarrow> py_error + string" where
  "format_result rp i item =
     and_then (py_get item ''table_name'' (PStr ''Unknown'')) (\<lambda>table_name.
     and_then (py_get item ''score'' (PInt 0)) (\<lambda>score.
     and_then (py_get item ''description'' (PStr ''No description available'')) (\<lambda>description.
     and_then (format_4f score) (\<lambda>score_text.
       Inr (str_nat i @ ''. Table: '' @ py_str rp table_name
          @ ''\<newline>   Score: '' @ score_text
          @ ''\<newline>   Description: '' @ py_str rp description)))))"

text \<open>Line 188: the loop over \<^verbatim>\<open>enumerate(..., 1)\<close>, appending to \<^verbatim>\<open>formatted_results\<close>.\<close>

fun format_results :: "(pyval \<Rightarrow> string) \<Rightarrow> nat \<Rightarrow> pyval list \<Rightarrow> py_error + string list" where
  "format_results rp i [] = Inr []"
| "format_results rp i (item # items) =
     and_then (format_result rp i item) (\<lambda>line.
     and_then (format_results rp (Suc i) items) (\<lambda>lines. Inr (line # lines)))"

text \<open>Lines 180 to 195.\<close>

definition similarity_search_render :: "(pyval \<Rightarrow> string) \<Rightarrow> pyval \<Rightarrow> py_error + string" where
  "similarity_search_render rp result =
     (case early_return rp ''Failed to get a response'' result of
        Some r \<Rightarrow> r
      | None \<Rightarrow>
          and_then (if truthy result then py_in ''results'' result else Inr False) (\<lambda>present.
          if present then
            and_then (py_getitem result ''results'') (\<lambda>results.
            and_then (py_iter results) (\<lambda>items.
            and_then (format_results rp 1 items) (\<lambda>formatted_results.
              Inr (''Search Results:\<newline>\<newline>''
                 @ join_strs ''\<newline>\<newline>'' formatted_results))))
          else Inr ''No results found or unable to perform similarity search.''))"

definition similarity_search ::
  "backend \<Rightarrow> (pyval \<Rightarrow> string) \<Rightarrow> string \<Rightarrow> int \<Rightarrow> string \<Rightarrow> string \<Rightarrow>
   http_call list \<times> (py_error + string)" where
  "similarity_search net rp query n_results username password =
     (let auth = basic_auth username password;
          params = similarity_search_params query n_results;
          (sent, result) =
            make_denodo_request net ''similaritySearch'' ''GET'' (Some params) None auth
      in (sent, similarity_search_render rp result))"

subsection \<open>get_metadata\<close>

text \<open>\<^verbatim>\<open>str(b).lower()\<close> of a bool.\<close>

definition bool_lower :: "bool \<Rightarrow> string" where
  "bool_lower b = (if b then ''true'' else ''false'')"

text \<open>The parameter \<^verbatim>\<open>insert\<close> of the source is \<open>insert_arg\<close> here.\<close>

definition get_metadata_params :: "string \<Rightarrow> bool \<Rightarrow> bool \<Rightarrow> (string \<times> pyval) list" where
  "get_metadata_params database_names insert_arg overwrite =
     [(''vdp_database_names'', PStr database_names),
      (''insert'', PStr (bool_lower insert_arg)),
      (''overwrite'', PStr (bool_lower overwrite)), (''examples_per_table'', PInt 3),
      (''descriptions'', PStr ''true''), (''associations'', PStr ''true'')]"

text \<open>
  Lines 231 to 237: the loop over the entries, carrying \<^verbatim>\<open>tables_count\<close> and
  \<^verbatim>\<open>databases\<close>.
\<close>

fun scan_databases :: "pyval list \<Rightarrow> nat \<times> pyval list \<Rightarrow> py_error + nat \<times> pyval list" where
  "scan_databases [] acc = Inr acc"
| "scan_databases (db # dbs) (tables_count, databases) =
     and_then (py_get db ''databaseName'' (PStr ''Unknown'')) (\<lambda>db_name.
     and_then (py_get db ''databaseTables'' (PList [])) (\<lambda>db_tables.
     and_then (py_len db_tables) (\<lambda>n.
       scan_databases dbs (tables_count + n, databases @ [db_name]))))"

text \<open>Lines 223 to 241.\<close>

definition get_metadata_render :: "(pyval \<Rightarrow> string) \<Rightarrow> string \<Rightarrow> pyval \<Rightarrow> py_error + string" where
  "get_metadata_render rp database_names result =
     (case early_return rp ''Failed to get metadata'' result of
        Some r \<Rightarrow> r
      | None \<Rightarrow>
          and_then (py_in ''db_schema_json'' result) (\<lambda>present.
          and_then
            (if present then
               and_then (py_getitem result ''db_schema_json'') (\<lambda>dbs.
               and_then (py_iter dbs) (\<lambda>entries. scan_databases entries (0, [])))
             else Inr (0, []))
            (\<lambda>(tables_count, databases).
          and_then (if databases \<noteq> [] then py_join '', '' (PList databases)
                    else Inr database_names) (\<lambda>databases_str.
            Inr (''Successfully retrieved metadata for '' @ str_nat tables_count
               @ '' tables from database(s): '' @ databases_str @ ''.'')))))"

definition get_metadata ::
  "backend \<Rightarrow> (pyval \<Rightarrow> string) \<Rightarrow> string \<Rightarrow> bool \<Rightarrow> bool \<Rightarrow> string \<Rightarrow> string \<Rightarrow>
   http_call list \<times> (py_error + string)" where
  "get_metadata net rp database_names insert_arg overwrite username password =
     (let auth = basic_auth username password;
          params = get_metadata_params database_names insert_arg overwrite;
          (sent, result) =
            make_denodo_request net ''getMetadata'' ''GET'' (Some params) None auth
      in (sent, get_metadata_render rp database_names result))"

section \<open>Vocabulary of the claims\<close>

text \<open>
  The definitions of this section are not code of the adapter: they name the payloads
  and the texts that the claims speak of, so that the operations can be compared with
  them.
\<close>

text \<open>The field \<open>k\<close> of an object, or \<open>dflt\<close> when the object has no such field.\<close>

definition field_or :: "(string \<times> pyval) list \<Rightarrow> string \<Rightarrow> pyval \<Rightarrow> pyval" where
  "field_or d k dflt = (case map_of d k of Some v \<Rightarrow> v | None \<Rightarrow> dflt)"

fun is_str :: "pyval \<Rightarrow> bool" where
  "is_str (PStr s) = True"
| "is_str v = False"

fun is_list :: "pyval \<Rightarrow> bool" where
  "is_list (PList xs) = True"
| "is_list v = False"

fun the_str :: "pyval \<Rightarrow> string" where
  "the_str (PStr s) = s"
| "the_str v = []"

fun list_len :: "pyval \<Rightarrow> nat" where
  "list_len (PList xs) = length xs"
| "list_len v = 0"

subsection \<open>answer_question and answer_data_question\<close>

text \<open>
  A value of \<^verbatim>\<open>tables_used\<close> that the operation can print: an empty (falsy) value, a
  list of strings, a string or an object.
\<close>

fun tables_ok :: "pyval \<Rightarrow> bool" where
  "tables_ok (PList xs) = list_all is_str xs"
| "tables_ok (PStr s) = True"
| "tables_ok (PDict d) = True"
| "tables_ok v = (\<not> truthy v)"

text \<open>
  The line \<^verbatim>\<open>Tables Used\<close> for such a value: \<^verbatim>\<open>None\<close> for an empty one, else the names
  joined by a comma and a space (the characters of a string, the keys of an object).
\<close>

fun spec_tables_text :: "pyval \<Rightarrow> string" where
  "spec_tables_text (PList xs) = (if xs = [] then ''None'' else join_strs '', '' (map the_str xs))"
| "spec_tables_text (PStr s) = (if s = [] then ''None'' else join_strs '', '' (map (\<lambda>c. [c]) s))"
| "spec_tables_text (PDict d) = (if d = [] then ''None'' else join_strs '', '' (map fst d))"
| "spec_tables_text v = ''None''"

text \<open>The three labelled lines of the success template.\<close>

definition spec_answer_template :: "string \<Rightarrow> string \<Rightarrow> string \<Rightarrow> string" where
  "spec_answer_template answer sql tables =
     ''\<newline>Answer: '' @ answer @ ''\<newline>\<newline>SQL Query: '' @ sql
     @ ''\<newline>\<newline>Tables Used: '' @ tables @ ''\<newline>''"

subsection \<open>similarity_search\<close>

text \<open>
  A score that the model prints without a fault, and its text with four decimals: a
  float, a bool, or an int below \<open>2^53\<close> in magnitude (such an int is a double as it is).
\<close>

fun score_ok :: "pyval \<Rightarrow> bool" where
  "score_ok (PFloat f) = True"
| "score_ok (PBool b) = True"
| "score_ok (PInt n) = (\<bar>n\<bar> < 2 ^ 53)"
| "score_ok v = False"

fun spec_score_text :: "pyval \<Rightarrow> string" where
  "spec_score_text (PFloat f) = format_float_4f f"
| "spec_score_text (PBool b) = (if b then ''1.0000'' else ''0.0000'')"
| "spec_score_text (PInt n) = (if n < 0 then ''-'' else []) @ str_nat (nat \<bar>n\<bar>) @ ''.0000''"
| "spec_score_text v = []"

definition result_entry_ok :: "(string \<times> pyval) list \<Rightarrow> bool" where
  "result_entry_ok e = score_ok (field_or e ''score'' (PInt 0))"

text \<open>The entry numbered \<open>i\<close> of the list of results.\<close>

definition spec_result_entry :: "(pyval \<Rightarrow> string) \<Rightarrow> nat \<Rightarrow> (string \<times> pyval) list \<Rightarrow> string" where
  "spec_result_entry rp i e =
     str_nat i @ ''. Table: '' @ py_str rp (field_or e ''table_name'' (PStr ''Unknown''))
     @ ''\<newline>   Score: '' @ spec_score_text (field_or e ''score'' (PInt 0))
     @ ''\<newline>   Description: ''
     @ py_str rp (field_or e ''description'' (PStr ''No description available''))"

subsection \<open>get_metadata\<close>

text \<open>
  An entry of \<^verbatim>\<open>db_schema_json\<close> as the claims expect it: the name, if any, is a string
  and the tables, if any, are a list.
\<close>

definition db_entry_ok :: "(string \<times> pyval) list \<Rightarrow> bool" where
  "db_entry_ok e =
     (is_str (field_or e ''databaseName'' (PStr ''Unknown''))
      \<and> is_list (field_or e ''databaseTables'' (PList [])))"

definition db_entry_name :: "(string \<times> pyval) list \<Rightarrow> string" where
  "db_entry_name e = the_str (field_or e ''databaseName'' (PStr ''Unknown''))"

definition db_entry_tables :: "(string \<times> pyval) list \<Rightarrow> nat" where
  "db_entry_tables e = list_len (field_or e ''databaseTables'' (PList []))"

definition spec_metadata_sentence :: "nat \<Rightarrow> string \<Rightarrow> string" where
  "spec_metadata_sentence tables_count databases =
     ''Successfully retrieved metadata for '' @ str_nat tables_count
     @ '' tables from database(s): '' @ databases @ ''.''"

subsection \<open>Payloads that every operation can print\<close>

fun answer_payload_ok :: "pyval \<Rightarrow> bool" where
  "answer_payload_ok (PDict d) =
     (d = [] \<or> ''error'' \<in> fst ` set d \<or> tables_ok (field_or d ''tables_used'' (PList [])))"
| "answer_payload_ok r = (\<not> truthy r)"

fun metadata_answer_payload_ok :: "pyval \<Rightarrow> bool" where
  "metadata_answer_payload_ok (PDict d) = True"
| "metadata_answer_payload_ok r = (\<not> truthy r)"

fun result_item_ok :: "pyval \<Rightarrow> bool" where
  "result_item_ok (PDict e) = result_entry_ok e"
| "result_item_ok v = False"

fun results_ok :: "pyval \<Rightarrow> bool" where
  "results_ok (PList items) = list_all result_item_ok items"
| "results_ok v = False"

fun search_payload_ok :: "pyval \<Rightarrow> bool" where
  "search_payload_ok (PDict d) =
     (d = [] \<or> ''error'' \<in> fst ` set d
      \<or> (case map_of d ''results'' of None \<Rightarrow> True | Some v \<Rightarrow> results_ok v))"
| "search_payload_ok r = (\<not> truthy r)"

fun db_item_ok :: "pyval \<Rightarrow> bool" where
  "db_item_ok (PDict e) = db_entry_ok e"
| "db_item_ok v = False"

fun schema_ok :: "pyval \<Rightarrow> bool" where
  "schema_ok (PList items) = list_all db_item_ok items"
| "schema_ok v = False"

fun metadata_payload_ok :: "pyval \<Rightarrow> bool" where
  "metadata_payload_ok (PDict d) =
     (d = [] \<or> ''error'' \<in> fst ` set d
      \<or> (case map_of d ''db_schema_json'' of None \<Rightarrow> True | Some v \<Rightarrow> schema_ok v))"
| "metadata_payload_ok r = (\<not> truthy r)"

text \<open>A reply is fit when the call raised (line 33 wraps it) or its body is.\<close>

definition reply_ok :: "(pyval \<Rightarrow> bool) \<Rightarrow> http_reply \<Rightarrow> bool" where
  "reply_ok ok rep = (case rep of Raises msg \<Rightarrow> True | Body r \<Rightarrow> ok r)"

section \<open>Evaluation and the shape of a call\<close>

text \<open>
  The recursive equations of \<open>str_nat\<close> and \<open>bit_length\<close> are used in the guarded forms
  below; the facts after them unfold one call of the transport and the early return.
\<close>

lemma str_nat_digit: "n < 10 \<Longrightarrow> str_nat n = [digit_char n]"
  by (subst str_nat.simps) simp

lemma str_nat_more: "10 \<le> n \<Longrightarrow> str_nat n = str_nat (n div 10) @ [digit_char (n mod 10)]"
  by (subst str_nat.simps) simp

lemma bit_length_0: "bit_length 0 = 0"
  by (simp add: bit_length.simps)

lemma bit_length_1: "bit_length 1 = 1"
  by (simp add: bit_length.simps)

lemma bit_length_Suc_0: "bit_length (Suc 0) = 1"
  by (simp add: bit_length.simps)

lemma bit_length_Bit0: "bit_length (numeral (Num.Bit0 n)) = Suc (bit_length (numeral n))"
  by (subst bit_length.simps) simp

lemma bit_length_Bit1: "bit_length (numeral (Num.Bit1 n)) = Suc (bit_length (numeral n))"
  by (subst bit_length.simps) simp

lemmas py_eval = and_then_def early_return_def py_join_def format_result_def fixed4_def pad4_def
  round_half_even_def digit_char_def str_nat_digit str_nat_more str_int_def float_of_int_def
  bit_length_0 bit_length_1 bit_length_Suc_0 bit_length_Bit0 bit_length_Bit1 Let_def

lemma and_then_Inr [simp]: "and_then (Inr x) f = f x"
  by (simp add: and_then_def)

lemma and_then_Inl [simp]: "and_then (Inl e) f = Inl e"
  by (simp add: and_then_def)

lemma upper_POST: "upper ''POST'' = ''POST''"
  by (simp add: upper_def upper_char_def)

lemma upper_GET: "upper ''GET'' = ''GET''"
  by (simp add: upper_def upper_char_def)

lemma request_POST:
  "make_denodo_request net endpoint ''POST'' params json_data auth =
     (let c = \<lparr>call_verb = POST, call_url = API_BASE_URL @ ''/'' @ endpoint, call_params = params,
               call_json = json_data, call_headers = DEFAULT_HEADERS, call_auth = auth,
               call_timeout = 120\<rparr>
      in ([c], reply_value (net c)))"
  by (simp add: make_denodo_request_def upper_POST Let_def)

lemma request_GET:
  "make_denodo_request net endpoint ''GET'' params json_data auth =
     (let c = \<lparr>call_verb = GET, call_url = API_BASE_URL @ ''/'' @ endpoint, call_params = params,
               call_json = None, call_headers = DEFAULT_HEADERS, call_auth = auth,
               call_timeout = 120\<rparr>
      in ([c], reply_value (net c)))"
  by (simp add: make_denodo_request_def upper_GET Let_def)

lemma snd_answer_question:
  "(\<And>c. net c = r) \<Longrightarrow>
   snd (answer_question net rp question username password plot mode use_views custom_instructions)
     = answer_question_render rp (reply_value r)"
  by (simp add: answer_question_def request_POST Let_def)

lemma snd_answer_data_question:
  "(\<And>c. net c = r) \<Longrightarrow>
   snd (answer_data_question net rp question username password plot use_views)
     = answer_question_render rp (reply_value r)"
  by (simp add: answer_data_question_def request_POST Let_def)

lemma snd_answer_metadata_question:
  "(\<And>c. net c = r) \<Longrightarrow>
   snd (answer_metadata_question net rp question username password)
     = answer_metadata_question_render rp (reply_value r)"
  by (simp add: answer_metadata_question_def request_POST Let_def)

lemma snd_similarity_search:
  "(\<And>c. net c = r) \<Longrightarrow>
   snd (similarity_search net rp query n_results username password)
     = similarity_search_render rp (reply_value r)"
  by (simp add: similarity_search_def request_GET Let_def)

lemma snd_get_metadata:
  "(\<And>c. net c = r) \<Longrightarrow>
   snd (get_metadata net rp database_names insert_arg overwrite username password)
     = get_metadata_render rp database_names (reply_value r)"
  by (simp add: get_metadata_def request_GET Let_def)

lemmas snd_operation = snd_answer_question snd_answer_data_question snd_answer_metadata_question
  snd_similarity_search snd_get_metadata

lemma early_return_falsy:
  "\<not> truthy result \<Longrightarrow> early_return rp no_response result = Some (Inr no_response)"
  by (simp add: early_return_def)

lemma early_return_error:
  "map_of d ''error'' = Some v \<Longrightarrow>
   early_return rp no_response (PDict d) = Some (Inr (''Error: '' @ py_str rp v))"
proof -
  assume v: "map_of d ''error'' = Some v"
  then have "(''error'', v) \<in> set d"
    by (rule map_of_SomeD)
  then have "''error'' \<in> fst ` set d" and "d \<noteq> []"
    by force+
  with v show ?thesis
    by (simp add: early_return_def)
qed

lemma early_return_pass:
  "d \<noteq> [] \<Longrightarrow> ''error'' \<notin> fst ` set d \<Longrightarrow> early_return rp no_response (PDict d) = None"
  by (simp add: early_return_def)

section \<open>Facts about the renderers\<close>

lemma render_None:
  "answer_question_render rp PNone = Inr ''Failed to get a response''"
  "answer_metadata_question_render rp PNone = Inr ''Failed to get a response''"
  "similarity_search_render rp PNone = Inr ''Failed to get a response''"
  "get_metadata_render rp database_names PNone = Inr ''Failed to get metadata''"
  by (simp_all add: answer_question_render_def answer_metadata_question_render_def
      similarity_search_render_def get_metadata_render_def early_return_falsy)

lemma render_error:
  assumes "map_of d ''error'' = Some v"
  shows "answer_question_render rp (PDict d) = Inr (''Error: '' @ py_str rp v)"
    and "answer_metadata_question_render rp (PDict d) = Inr (''Error: '' @ py_str rp v)"
    and "similarity_search_render rp (PDict d) = Inr (''Error: '' @ py_str rp v)"
    and "get_metadata_render rp database_names (PDict d) = Inr (''Error: '' @ py_str rp v)"
  using assms
  by (simp_all add: answer_question_render_def answer_metadata_question_render_def
      similarity_search_render_def get_metadata_render_def early_return_error)

lemma py_get_field: "py_get (PDict d) k dflt = Inr (field_or d k dflt)"
  by (simp add: field_or_def)

lemma str_items_strs: "str_items (map PStr ss) = Inr ss"
  by (induction ss) simp_all

lemma all_str_map: "list_all is_str xs \<Longrightarrow> map PStr (map the_str xs) = xs"
proof (induction xs)
  case Nil
  then show ?case by simp
next
  case (Cons x xs)
  then show ?case by (cases x) simp_all
qed

lemma str_items_all_str: "list_all is_str xs \<Longrightarrow> str_items xs = Inr (map the_str xs)"
proof -
  assume "list_all is_str xs"
  then have "map PStr (map the_str xs) = xs"
    by (rule all_str_map)
  with str_items_strs[of "map the_str xs"] show ?thesis
    by (simp only:)
qed

lemma tables_text:
  "tables_ok v \<Longrightarrow>
   (if truthy v then py_join '', '' v else Inr ''None'') = Inr (spec_tables_text v)"
proof (cases v)
  case (PList xs)
  assume "tables_ok v"
  with PList show ?thesis
    by (simp add: py_join_def str_items_all_str)
next
  case (PStr s)
  have "str_items (map (\<lambda>c. PStr [c]) s) = Inr (map (\<lambda>c. [c]) s)"
    using str_items_strs[of "map (\<lambda>c. [c]) s"] by (simp add: comp_def)
  with PStr show ?thesis
    by (simp add: py_join_def)
next
  case (PDict d)
  have "str_items (map (\<lambda>kv. PStr (fst kv)) d) = Inr (map fst d)"
    using str_items_strs[of "map fst d"] by (simp add: comp_def)
  with PDict show ?thesis
    by (simp add: py_join_def)
next
  case PNone
  then show ?thesis by simp
next
  case (PBool b)
  assume "tables_ok v"
  with PBool show ?thesis by simp
next
  case (PInt n)
  assume "tables_ok v"
  with PInt show ?thesis by simp
next
  case (PFloat f)
  assume "tables_ok v"
  with PFloat show ?thesis by (cases f) simp_all
qed

lemma answer_question_render_ok:
  assumes "d \<noteq> []" and "''error'' \<notin> fst ` set d"
    and "tables_ok (field_or d ''tables_used'' (PList []))"
  shows "answer_question_render rp (PDict d) =
     Inr (spec_answer_template
            (py_str rp (field_or d ''answer'' (PStr ''No answer provided'')))
            (if truthy (field_or d ''sql_query'' (PStr []))
             then py_str rp (field_or d ''sql_query'' (PStr []))
             else ''No SQL query generated'')
            (spec_tables_text (field_or d ''tables_used'' (PList []))))"
  using assms tables_text[OF assms(3)]
  by (simp add: answer_question_render_def early_return_pass py_get_field
      spec_answer_template_def del: py_get.simps)

lemma answer_metadata_question_render_ok:
  assumes "d \<noteq> []" and "''error'' \<notin> fst ` set d"
  shows "answer_metadata_question_render rp (PDict d) =
     Inr (''Answer: '' @ py_str rp (field_or d ''answer'' (PStr ''No answer provided'')))"
  using assms
  by (simp add: answer_metadata_question_render_def early_return_pass py_get_field
      del: py_get.simps)

lemma key_absent: "map_of d k = None \<Longrightarrow> k \<notin> fst ` set d"
  by (simp add: map_of_eq_None_iff)

lemma key_present: "map_of d k = Some v \<Longrightarrow> k \<in> fst ` set d \<and> d \<noteq> []"
  by (force dest: map_of_SomeD)

lemma similarity_search_render_absent:
  assumes "d \<noteq> []" and "''error'' \<notin> fst ` set d" and "map_of d ''results'' = None"
  shows "similarity_search_render rp (PDict d)
           = Inr ''No results found or unable to perform similarity search.''"
  using assms key_absent[OF assms(3)]
  by (simp add: similarity_search_render_def early_return_pass)

lemma get_metadata_render_absent:
  assumes "d \<noteq> []" and "''error'' \<notin> fst ` set d" and "map_of d ''db_schema_json'' = None"
  shows "get_metadata_render rp database_names (PDict d)
           = Inr (spec_metadata_sentence 0 database_names)"
  using assms key_absent[OF assms(3)]
  by (simp add: get_metadata_render_def early_return_pass spec_metadata_sentence_def)

lemma scan_databases_entries:
  "list_all db_entry_ok es \<Longrightarrow>
   scan_databases (map PDict es) (n, acc)
     = Inr (n + sum_list (map db_entry_tables es), acc @ map (\<lambda>e. PStr (db_entry_name e)) es)"
proof (induction es arbitrary: n acc)
  case Nil
  then show ?case by simp
next
  case (Cons e es)
  from Cons.prems have ok: "db_entry_ok e" and rest: "list_all db_entry_ok es"
    by simp_all
  from ok obtain s ts where s: "field_or e ''databaseName'' (PStr ''Unknown'') = PStr s"
    and ts: "field_or e ''databaseTables'' (PList []) = PList ts"
    unfolding db_entry_ok_def
    by (cases "field_or e ''databaseName'' (PStr ''Unknown'')";
        cases "field_or e ''databaseTables'' (PList [])") simp_all
  show ?case
    using Cons.IH[OF rest, of "n + length ts" "acc @ [PStr s]"] s ts
    by (simp add: py_get_field db_entry_tables_def db_entry_name_def del: py_get.simps)
qed

lemma join_databases:
  "py_join sep (PList (map (\<lambda>e. PStr (db_entry_name e)) es))
     = Inr (join_strs sep (map db_entry_name es))"
  using str_items_strs[of "map db_entry_name es"]
  by (simp add: py_join_def comp_def)

lemma get_metadata_render_entries:
  assumes "''error'' \<notin> fst ` set d"
    and "map_of d ''db_schema_json'' = Some (PList (map PDict es))"
    and "list_all db_entry_ok es"
  shows "get_metadata_render rp database_names (PDict d)
           = Inr (spec_metadata_sentence (sum_list (map db_entry_tables es))
                    (if es = [] then database_names
                     else join_strs '', '' (map db_entry_name es)))"
  using assms(1,2) key_present[OF assms(2)] scan_databases_entries[OF assms(3), of 0 "[]"]
    join_databases[of "'', ''" es]
  by (simp add: get_metadata_render_def early_return_pass spec_metadata_sentence_def)

lemma bit_length_le: "n < 2 ^ k \<Longrightarrow> bit_length n \<le> k"
proof (induction k arbitrary: n)
  case 0
  then show ?case by (simp add: bit_length_0)
next
  case (Suc k)
  show ?case
  proof (cases "n = 0")
    case True
    then show ?thesis by (simp add: bit_length_0)
  next
    case False
    from Suc.prems have "n div 2 < 2 ^ k"
      by simp
    then have "bit_length (n div 2) \<le> k"
      by (rule Suc.IH)
    with False show ?thesis
      by (subst bit_length.simps) simp
  qed
qed

lemma float_of_small_int:
  assumes "\<bar>n\<bar> < 2 ^ 53"
  shows "float_of_int n = Inr (Finite (n < 0) (nat \<bar>n\<bar>) 0)"
proof -
  from assms have "nat \<bar>n\<bar> < 2 ^ 53"
    by (simp add: nat_less_iff)
  then have "bit_length (nat \<bar>n\<bar>) \<le> 53"
    by (rule bit_length_le)
  then show ?thesis
    by (simp add: float_of_int_def Let_def round_half_even_def)
qed

lemma fixed4_whole: "fixed4 s (a * 10000) = (if s then ''-'' else []) @ str_nat a @ ''.0000''"
  by (simp add: fixed4_def pad4_def digit_char_def)

lemma format_4f_score: "score_ok v \<Longrightarrow> format_4f v = Inr (spec_score_text v)"
proof (cases v)
  case (PInt n)
  assume "score_ok v"
  with PInt have "\<bar>n\<bar> < 2 ^ 53"
    by simp
  then have "float_of_int n = Inr (Finite (n < 0) (nat \<bar>n\<bar>) 0)"
    by (rule float_of_small_int)
  with PInt show ?thesis
    by (simp add: fixed4_whole)
next
  case (PBool b)
  have "float_of_int 1 = Inr (Finite False 1 0)" "float_of_int 0 = Inr (Finite False 0 0)"
    using float_of_small_int[of 1] float_of_small_int[of 0] by simp_all
  with PBool show ?thesis
    using fixed4_whole[of False 1] fixed4_whole[of False 0]
    by (simp add: str_nat_digit digit_char_def)
qed simp_all

lemma format_result_entry:
  "result_entry_ok e \<Longrightarrow> format_result rp i (PDict e) = Inr (spec_result_entry rp i e)"
  by (simp add: format_result_def py_get_field result_entry_ok_def format_4f_score
      spec_result_entry_def del: py_get.simps)

lemma format_results_entries:
  "list_all result_entry_ok es \<Longrightarrow>
   format_results rp i (map PDict es)
     = Inr (map (\<lambda>(j, e). spec_result_entry rp j e) (enumerate i es))"
  by (induction es arbitrary: i) (simp_all add: format_result_entry)

lemma similarity_search_render_entries:
  assumes "''error'' \<notin> fst ` set d"
    and "map_of d ''results'' = Some (PList (map PDict es))"
    and "list_all result_entry_ok es"
  shows "similarity_search_render rp (PDict d)
           = Inr (''Search Results:\<newline>\<newline>''
                  @ join_strs ''\<newline>\<newline>''
                      (map (\<lambda>(j, e). spec_result_entry rp j e) (enumerate 1 es)))"
  using assms(1,2) key_present[OF assms(2)] format_results_entries[OF assms(3), of rp 1]
  by (simp add: similarity_search_render_def early_return_pass)

lemma render_falsy:
  assumes "\<not> truthy r"
  shows "answer_question_render rp r = Inr ''Failed to get a response''"
    and "answer_metadata_question_render rp r = Inr ''Failed to get a response''"
    and "similarity_search_render rp r = Inr ''Failed to get a response''"
    and "get_metadata_render rp database_names r = Inr ''Failed to get metadata''"
  using assms
  by (simp_all add: answer_question_render_def answer_metadata_question_render_def
      similarity_search_render_def get_metadata_render_def early_return_falsy)

lemma key_value: "k \<in> fst ` set d \<Longrightarrow> \<exists>v. map_of d k = Some v"
  by (cases "map_of d k") (simp_all add: map_of_eq_None_iff)

lemma result_items_entries:
  "list_all result_item_ok items \<Longrightarrow> \<exists>es. items = map PDict es \<and> list_all result_entry_ok es"
proof (induction items)
  case Nil
  then show ?case by simp
next
  case (Cons x xs)
  from Cons.prems obtain e where e: "x = PDict e" and ok: "result_entry_ok e"
    by (cases x) simp_all
  from Cons obtain es where "xs = map PDict es" and "list_all result_entry_ok es"
    by auto
  with e ok have "x # xs = map PDict (e # es) \<and> list_all result_entry_ok (e # es)"
    by simp
  then show ?case ..
qed

lemma db_items_entries:
  "list_all db_item_ok items \<Longrightarrow> \<exists>es. items = map PDict es \<and> list_all db_entry_ok es"
proof (induction items)
  case Nil
  then show ?case by simp
next
  case (Cons x xs)
  from Cons.prems obtain e where e: "x = PDict e" and ok: "db_entry_ok e"
    by (cases x) simp_all
  from Cons obtain es where "xs = map PDict es" and "list_all db_entry_ok es"
    by auto
  with e ok have "x # xs = map PDict (e # es) \<and> list_all db_entry_ok (e # es)"
    by simp
  then show ?case ..
qed

lemma answer_payload_returns:
  assumes "answer_payload_ok r"
  shows "\<exists>s. answer_question_render rp r = Inr s"
proof (cases "truthy r")
  case False
  then show ?thesis by (simp add: render_falsy)
next
  case True
  with assms obtain d where r: "r = PDict d" and d: "d \<noteq> []"
    by (cases r) simp_all
  show ?thesis
  proof (cases "''error'' \<in> fst ` set d")
    case True
    then have "\<exists>v. map_of d ''error'' = Some v"
      by (rule key_value)
    then obtain v where "map_of d ''error'' = Some v" ..
    with r show ?thesis by (simp add: render_error)
  next
    case False
    with assms r d have "tables_ok (field_or d ''tables_used'' (PList []))"
      by simp
    with r d False show ?thesis by (simp add: answer_question_render_ok)
  qed
qed

lemma metadata_answer_payload_returns:
  assumes "metadata_answer_payload_ok r"
  shows "\<exists>s. answer_metadata_question_render rp r = Inr s"
proof (cases "truthy r")
  case False
  then show ?thesis by (simp add: render_falsy)
next
  case True
  with assms obtain d where r: "r = PDict d" and d: "d \<noteq> []"
    by (cases r) simp_all
  show ?thesis
  proof (cases "''error'' \<in> fst ` set d")
    case True
    then have "\<exists>v. map_of d ''error'' = Some v"
      by (rule key_value)
    then obtain v where "map_of d ''error'' = Some v" ..
    with r show ?thesis by (simp add: render_error)
  next
    case False
    with r d show ?thesis by (simp add: answer_metadata_question_render_ok)
  qed
qed

lemma search_payload_returns:
  assumes "search_payload_ok r"
  shows "\<exists>s. similarity_search_render rp r = Inr s"
proof (cases "truthy r")
  case False
  then show ?thesis by (simp add: render_falsy)
next
  case True
  with assms obtain d where r: "r = PDict d" and d: "d \<noteq> []"
    by (cases r) simp_all
  show ?thesis
  proof (cases "''error'' \<in> fst ` set d")
    case True
    then have "\<exists>v. map_of d ''error'' = Some v"
      by (rule key_value)
    then obtain v where "map_of d ''error'' = Some v" ..
    with r show ?thesis by (simp add: render_error)
  next
    case False
    note no_error = this
    show ?thesis
    proof (cases "map_of d ''results''")
      case None
      with r d no_error show ?thesis by (simp add: similarity_search_render_absent)
    next
      case (Some v)
      with assms r d no_error have "results_ok v"
        by simp
      then obtain items where v: "v = PList items" and items: "list_all result_item_ok items"
        by (cases v) simp_all
      from result_items_entries[OF items]
      obtain es where "items = map PDict es" and "list_all result_entry_ok es"
        by (elim exE conjE)
      with Some v r no_error show ?thesis
        by (simp add: similarity_search_render_entries)
    qed
  qed
qed

lemma metadata_payload_returns:
  assumes "metadata_payload_ok r"
  shows "\<exists>s. get_metadata_render rp database_names r = Inr s"
proof (cases "truthy r")
  case False
  then show ?thesis by (simp add: render_falsy)
next
  case True
  with assms obtain d where r: "r = PDict d" and d: "d \<noteq> []"
    by (cases r) simp_all
  show ?thesis
  proof (cases "''error'' \<in> fst ` set d")
    case True
    then have "\<exists>v. map_of d ''error'' = Some v"
      by (rule key_value)
    then obtain v where "map_of d ''error'' = Some v" ..
    with r show ?thesis by (simp add: render_error)
  next
    case False
    note no_error = this
    show ?thesis
    proof (cases "map_of d ''db_schema_json''")
      case None
      with r d no_error show ?thesis by (simp add: get_metadata_render_absent)
    next
      case (Some v)
      with assms r d no_error have "schema_ok v"
        by simp
      then obtain items where v: "v = PList items" and items: "list_all db_item_ok items"
        by (cases v) simp_all
      from db_items_entries[OF items]
      obtain es where "items = map PDict es" and "list_all db_entry_ok es"
        by (elim exE conjE)
      with Some v r no_error show ?thesis
        by (simp add: get_metadata_render_entries)
    qed
  qed
qed

lemma raised_is_error: "map_of [(''error'', PStr msg)] ''error'' = Some (PStr msg)"
  by simp

lemma reply_returns:
  assumes "reply_ok ok rep" and "\<And>r. ok r \<Longrightarrow> \<exists>s. render r = Inr s"
    and "\<And>msg. \<exists>s. render (PDict [(''error'', PStr msg)]) = Inr s"
  shows "\<exists>s. render (reply_value rep) = Inr s"
  using assms by (cases rep) (simp_all add: reply_ok_def reply_value_def)

lemma operation_result:
  "\<exists>c. snd (answer_question net rp question username password plot mode use_views
          custom_instructions) = answer_question_render rp (reply_value (net c))"
  "\<exists>c. snd (answer_data_question net rp question username password plot use_views)
          = answer_question_render rp (reply_value (net c))"
  "\<exists>c. snd (answer_metadata_question net rp question username password)
          = answer_metadata_question_render rp (reply_value (net c))"
  "\<exists>c. snd (similarity_search net rp query n_results username password)
          = similarity_search_render rp (reply_value (net c))"
  "\<exists>c. snd (get_metadata net rp database_names insert_arg overwrite username password)
          = get_metadata_render rp database_names (reply_value (net c))"
  by (simp_all add: answer_question_def answer_data_question_def answer_metadata_question_def
      similarity_search_def get_metadata_def request_POST request_GET Let_def)
    (rule exI, rule refl)+

section \<open>The claims\<close>

subsection \<open>C1: no outcome at all\<close>

text \<open>
  C1, as the code has it. When the transport client yields \<^verbatim>\<open>None\<close> (the body of the
  reply is the JSON value \<^verbatim>\<open>null\<close>), \<^verbatim>\<open>answer_question\<close>, \<^verbatim>\<open>answer_data_question\<close>,
  \<^verbatim>\<open>answer_metadata_question\<close> and \<^verbatim>\<open>similarity_search\<close> return the text
  \<^verbatim>\<open>Failed to get a response\<close>, and \<^verbatim>\<open>get_metadata\<close> returns the text
  \<^verbatim>\<open>Failed to get metadata\<close> (line 224).
\<close>

theorem C1_no_outcome_text:
  assumes "\<And>c. net c = Body PNone"
  shows "snd (answer_question net rp question username password plot mode use_views
            custom_instructions) = Inr ''Failed to get a response''
       \<and> snd (answer_data_question net rp question username password plot use_views)
           = Inr ''Failed to get a response''
       \<and> snd (answer_metadata_question net rp question username password)
           = Inr ''Failed to get a response''
       \<and> snd (similarity_search net rp query n_results username password)
           = Inr ''Failed to get a response''
       \<and> snd (get_metadata net rp database_names insert_arg overwrite username password)
           = Inr ''Failed to get metadata''"
  using assms by (simp add: snd_operation reply_value_def render_None)

theorem C1_no_outcome_text_witness:
  "snd (answer_question (\<lambda>c. Body PNone) (\<lambda>v. []) ''How many loans?'' [] [] False ''default''
          [] []) = Inr ''Failed to get a response''
   \<and> snd (answer_data_question (\<lambda>c. Body PNone) (\<lambda>v. []) ''How many loans?'' [] [] False [])
       = Inr ''Failed to get a response''
   \<and> snd (answer_metadata_question (\<lambda>c. Body PNone) (\<lambda>v. []) ''How many loans?'' [] [])
       = Inr ''Failed to get a response''
   \<and> snd (similarity_search (\<lambda>c. Body PNone) (\<lambda>v. []) ''customer churn'' 2 [] [])
       = Inr ''Failed to get a response''
   \<and> snd (get_metadata (\<lambda>c. Body PNone) (\<lambda>v. []) ''bank'' True True [] [])
       = Inr ''Failed to get metadata''"
  by (rule C1_no_outcome_text) simp

text \<open>
  C1 as stated fails for \<^verbatim>\<open>get_metadata\<close>: with no outcome it does not return
  \<^verbatim>\<open>Failed to get a response\<close>.
\<close>

theorem C1_get_metadata_counterexample:
  "snd (get_metadata (\<lambda>c. Body PNone) (\<lambda>v. []) ''bank'' True True [] [])
     \<noteq> Inr ''Failed to get a response''"
  by (simp add: snd_get_metadata reply_value_def render_None)

subsection \<open>C2: defaults for missing fields\<close>

text \<open>
  C2, as the code has it. Take a non-empty JSON object without a top-level \<^verbatim>\<open>error\<close>
  field. \<^verbatim>\<open>answer_question\<close> and \<^verbatim>\<open>answer_data_question\<close> (which share the renderer)
  print the three lines, with \<^verbatim>\<open>No answer provided\<close>, \<^verbatim>\<open>No SQL query generated\<close> and
  \<^verbatim>\<open>None\<close> for the missing fields, provided that \<^verbatim>\<open>tables_used\<close>, when present, is a
  falsy value, a list of strings, a string or an object. \<^verbatim>\<open>answer_metadata_question\<close>
  prints the line \<^verbatim>\<open>Answer\<close>, with \<^verbatim>\<open>No answer provided\<close> for a missing answer.
  \<^verbatim>\<open>similarity_search\<close> prints \<^verbatim>\<open>No results found ...\<close> when \<^verbatim>\<open>results\<close> is missing, and,
  when \<^verbatim>\<open>results\<close> is a list of objects whose score, if any, is a float, a bool or an
  int below \<open>2^53\<close> in magnitude, the numbered entries with \<^verbatim>\<open>Unknown\<close>, \<^verbatim>\<open>0.0000\<close> and
  \<^verbatim>\<open>No description available\<close> for the missing fields of an entry. \<^verbatim>\<open>get_metadata\<close>
  prints its sentence with the count 0 and the requested names when \<^verbatim>\<open>db_schema_json\<close>
  is missing, and, when \<^verbatim>\<open>db_schema_json\<close> is a list of objects whose name, if any, is a
  string and whose tables, if any, are a list, the sentence with \<^verbatim>\<open>Unknown\<close> for a missing
  name and no table for a missing list. Scenario 2 comes out as stated. The empty object
  is left out: the code takes it for no response.
\<close>

theorem C2_defaults_for_missing_fields:
  "(d \<noteq> [] \<and> ''error'' \<notin> fst ` set d \<and> tables_ok (field_or d ''tables_used'' (PList [])) \<longrightarrow>
      answer_question_render rp (PDict d) =
        Inr (spec_answer_template
               (py_str rp (field_or d ''answer'' (PStr ''No answer provided'')))
               (if truthy (field_or d ''sql_query'' (PStr []))
                then py_str rp (field_or d ''sql_query'' (PStr []))
                else ''No SQL query generated'')
               (spec_tables_text (field_or d ''tables_used'' (PList [])))))
   \<and> (d \<noteq> [] \<and> ''error'' \<notin> fst ` set d \<longrightarrow>
      answer_metadata_question_render rp (PDict d) =
        Inr (''Answer: '' @ py_str rp (field_or d ''answer'' (PStr ''No answer provided''))))
   \<and> (d \<noteq> [] \<and> ''error'' \<notin> fst ` set d \<and> map_of d ''results'' = None \<longrightarrow>
      similarity_search_render rp (PDict d) =
        Inr ''No results found or unable to perform similarity search.'')
   \<and> (''error'' \<notin> fst ` set d \<and> map_of d ''results'' = Some (PList (map PDict es))
      \<and> list_all result_entry_ok es \<longrightarrow>
      similarity_search_render rp (PDict d) =
        Inr (''Search Results:\<newline>\<newline>''
             @ join_strs ''\<newline>\<newline>''
                 (map (\<lambda>(i, e). spec_result_entry rp i e) (enumerate 1 es))))
   \<and> (d \<noteq> [] \<and> ''error'' \<notin> fst ` set d \<and> map_of d ''db_schema_json'' = None \<longrightarrow>
      get_metadata_render rp database_names (PDict d) =
        Inr (''Successfully retrieved metadata for 0 tables from database(s): ''
             @ database_names @ ''.''))
   \<and> (''error'' \<notin> fst ` set d \<and> map_of d ''db_schema_json'' = Some (PList (map PDict dbs))
      \<and> list_all db_entry_ok dbs \<longrightarrow>
      get_metadata_render rp database_names (PDict d) =
        Inr (''Successfully retrieved metadata for ''
             @ str_nat (sum_list (map db_entry_tables dbs))
             @ '' tables from database(s): ''
             @ (if dbs = [] then database_names else join_strs '', '' (map db_entry_name dbs))
             @ ''.''))
   \<and> (map_of d k = None \<longrightarrow> field_or d k dflt = dflt)
   \<and> (map_of d k = Some v \<longrightarrow> field_or d k dflt = v)
   \<and> spec_answer_template answer sql tables =
        ''\<newline>Answer: '' @ answer @ ''\<newline>\<newline>SQL Query: '' @ sql
        @ ''\<newline>\<newline>Tables Used: '' @ tables @ ''\<newline>''
   \<and> spec_tables_text (PList []) = ''None''
   \<and> spec_result_entry rp i e =
        str_nat i @ ''. Table: '' @ py_str rp (field_or e ''table_name'' (PStr ''Unknown''))
        @ ''\<newline>   Score: '' @ spec_score_text (field_or e ''score'' (PInt 0))
        @ ''\<newline>   Description: ''
        @ py_str rp (field_or e ''description'' (PStr ''No description available''))
   \<and> spec_score_text (PInt 0) = ''0.0000''
   \<and> (map_of e ''table_name'' = None \<and> map_of e ''score'' = None
      \<and> map_of e ''description'' = None \<longrightarrow>
      spec_result_entry rp i e =
        str_nat i @ ''. Table: Unknown\<newline>   Score: 0.0000\<newline>   Description: No description available'')
   \<and> (map_of e ''databaseName'' = None \<longrightarrow> db_entry_name e = ''Unknown'')
   \<and> (map_of e ''databaseTables'' = None \<longrightarrow> db_entry_tables e = 0)
   \<and> answer_question_render rp (PDict [(''answer'', PStr ''42'')]) =
        Inr ''\<newline>Answer: 42\<newline>\<newline>SQL Query: No SQL query generated\<newline>\<newline>Tables Used: None\<newline>''"
proof (intro conjI impI)
  show "answer_question_render rp (PDict [(''answer'', PStr ''42'')]) =
          Inr ''\<newline>Answer: 42\<newline>\<newline>SQL Query: No SQL query generated\<newline>\<newline>Tables Used: None\<newline>''"
    by (simp add: answer_question_render_def py_eval)
next
  assume "d \<noteq> [] \<and> ''error'' \<notin> fst ` set d \<and> map_of d ''db_schema_json'' = None"
  then show "get_metadata_render rp database_names (PDict d) =
        Inr (''Successfully retrieved metadata for 0 tables from database(s): ''
             @ database_names @ ''.'')"
    using get_metadata_render_absent[of d rp database_names]
    by (simp add: spec_metadata_sentence_def str_nat_digit digit_char_def)
next
  assume "''error'' \<notin> fst ` set d \<and> map_of d ''db_schema_json'' = Some (PList (map PDict dbs))
      \<and> list_all db_entry_ok dbs"
  then show "get_metadata_render rp database_names (PDict d) =
        Inr (''Successfully retrieved metadata for ''
             @ str_nat (sum_list (map db_entry_tables dbs))
             @ '' tables from database(s): ''
             @ (if dbs = [] then database_names else join_strs '', '' (map db_entry_name dbs))
             @ ''.'')"
    using get_metadata_render_entries[of d dbs rp database_names]
    by (simp add: spec_metadata_sentence_def)
next
  show "spec_score_text (PInt 0) = ''0.0000''"
    by (simp add: str_nat_digit digit_char_def)
next
  assume "map_of e ''table_name'' = None \<and> map_of e ''score'' = None
      \<and> map_of e ''description'' = None"
  then show "spec_result_entry rp i e =
        str_nat i @ ''. Table: Unknown\<newline>   Score: 0.0000\<newline>   Description: No description available''"
    by (simp add: spec_result_entry_def field_or_def str_nat_digit digit_char_def)
qed (simp_all add: answer_question_render_ok answer_metadata_question_render_ok
    similarity_search_render_absent similarity_search_render_entries field_or_def
    spec_answer_template_def spec_result_entry_def db_entry_name_def db_entry_tables_def)

theorem C2_defaults_for_missing_fields_witness:
  "answer_question_render (\<lambda>v. []) (PDict [(''sql_query'', PStr ''SELECT 1'')]) =
     Inr ''\<newline>Answer: No answer provided\<newline>\<newline>SQL Query: SELECT 1\<newline>\<newline>Tables Used: None\<newline>''
   \<and> answer_metadata_question_render (\<lambda>v. []) (PDict [(''sql_query'', PStr ''SELECT 1'')]) =
     Inr ''Answer: No answer provided''
   \<and> similarity_search_render (\<lambda>v. []) (PDict [(''sql_query'', PStr ''SELECT 1'')]) =
     Inr ''No results found or unable to perform similarity search.''
   \<and> similarity_search_render (\<lambda>v. [])
       (PDict [(''results'', PList [PDict [], PDict [(''table_name'', PStr ''bank.loans'')]])]) =
     Inr ''Search Results:\<newline>\<newline>1. Table: Unknown\<newline>   Score: 0.0000\<newline>   Description: No description available\<newline>\<newline>2. Table: bank.loans\<newline>   Score: 0.0000\<newline>   Description: No description available''
   \<and> get_metadata_render (\<lambda>v. []) ''bank'' (PDict [(''sql_query'', PStr ''SELECT 1'')]) =
     Inr ''Successfully retrieved metadata for 0 tables from database(s): bank.''
   \<and> get_metadata_render (\<lambda>v. []) ''bank''
       (PDict [(''db_schema_json'',
                PList [PDict [], PDict [(''databaseTables'', PList [PDict []])]])]) =
     Inr ''Successfully retrieved metadata for 1 tables from database(s): Unknown, Unknown.''"
  using C2_defaults_for_missing_fields[where d = "[(''sql_query'', PStr ''SELECT 1'')]"
      and rp = "\<lambda>v. []" and database_names = "''bank''"]
    C2_defaults_for_missing_fields[where rp = "\<lambda>v. []"
      and d = "[(''results'', PList [PDict [], PDict [(''table_name'', PStr ''bank.loans'')]])]"
      and es = "[[], [(''table_name'', PStr ''bank.loans'')]]"]
    C2_defaults_for_missing_fields[where rp = "\<lambda>v. []" and database_names = "''bank''"
      and d = "[(''db_schema_json'',
                PList [PDict [], PDict [(''databaseTables'', PList [PDict []])]])]"
      and dbs = "[[], [(''databaseTables'', PList [PDict []])]]"]
  by (simp add: field_or_def spec_answer_template_def result_entry_ok_def
      spec_result_entry_def db_entry_ok_def db_entry_name_def db_entry_tables_def
      str_nat_digit digit_char_def)

text \<open>
  C2 as stated fails on the empty object: it is falsy, so \<^verbatim>\<open>answer_question\<close> takes the
  no-response branch of line 69 and does not render the three-line template.
\<close>

theorem C2_empty_object_counterexample:
  "answer_question_render (\<lambda>v. []) (PDict []) = Inr ''Failed to get a response''"
  by (simp add: answer_question_render_def early_return_def)

subsection \<open>C3: a method that is neither GET nor POST\<close>

text \<open>
  C3, as the code has it. When the upper-cased method is neither \<^verbatim>\<open>GET\<close> nor \<^verbatim>\<open>POST\<close>,
  the transport client returns \<^verbatim>\<open>None\<close> (line 28) and no call goes out; the operations
  render \<^verbatim>\<open>None\<close> as \<^verbatim>\<open>Failed to get a response\<close> (\<^verbatim>\<open>get_metadata\<close>: as
  \<^verbatim>\<open>Failed to get metadata\<close>), not as an error message.
\<close>

theorem C3_other_method_is_None:
  assumes "upper method \<noteq> ''GET''" and "upper method \<noteq> ''POST''"
  shows "make_denodo_request net endpoint method params json_data auth = ([], PNone)
       \<and> answer_question_render rp PNone = Inr ''Failed to get a response''
       \<and> answer_metadata_question_render rp PNone = Inr ''Failed to get a response''
       \<and> similarity_search_render rp PNone = Inr ''Failed to get a response''
       \<and> get_metadata_render rp database_names PNone = Inr ''Failed to get metadata''"
  using assms by (simp add: make_denodo_request_def render_None)

theorem C3_other_method_is_None_witness:
  "make_denodo_request (\<lambda>c. Raises ''refused'') ''answerQuestion'' ''put'' None None None
     = ([], PNone)
   \<and> answer_question_render (\<lambda>v. []) PNone = Inr ''Failed to get a response''
   \<and> answer_metadata_question_render (\<lambda>v. []) PNone = Inr ''Failed to get a response''
   \<and> similarity_search_render (\<lambda>v. []) PNone = Inr ''Failed to get a response''
   \<and> get_metadata_render (\<lambda>v. []) ''bank'' PNone = Inr ''Failed to get metadata''"
  by (rule C3_other_method_is_None) (simp_all add: upper_def upper_char_def)

text \<open>
  C3 as stated fails: for the method \<^verbatim>\<open>PUT\<close> the outcome is not a dict with an
  \<^verbatim>\<open>error\<close> entry, and \<^verbatim>\<open>answer_question\<close> does not render it as \<^verbatim>\<open>Error: ...\<close>.
\<close>

theorem C3_other_method_counterexample:
  "snd (make_denodo_request (\<lambda>c. Raises ''refused'') ''answerQuestion'' ''PUT'' None None None)
     = PNone
   \<and> answer_question_render (\<lambda>v. []) PNone = Inr ''Failed to get a response''"
  by (simp add: make_denodo_request_def upper_def upper_char_def render_None)

subsection \<open>C4: faults that pass the operations\<close>

text \<open>
  C4, as the code has it. Each operation returns a string when the call raises, and when
  the body of the reply is \<^verbatim>\<open>None\<close> or another falsy value, an object with a top-level
  \<^verbatim>\<open>error\<close> field, or an object whose fields have the shapes that the formatting needs
  (\<open>answer_payload_ok\<close>, \<open>metadata_answer_payload_ok\<close>, \<open>search_payload_ok\<close>,
  \<open>metadata_payload_ok\<close>). Nothing is promised for other payloads: the operations have
  no handler, and a fault of the formatting reaches the caller.
\<close>

theorem C4_returns_text_on_fit_payloads:
  "((\<forall>c. reply_ok answer_payload_ok (net c)) \<longrightarrow>
      (\<exists>s. snd (answer_question net rp question username password plot mode use_views
                  custom_instructions) = Inr s)
    \<and> (\<exists>s. snd (answer_data_question net rp question username password plot use_views)
              = Inr s))
   \<and> ((\<forall>c. reply_ok metadata_answer_payload_ok (net c)) \<longrightarrow>
      (\<exists>s. snd (answer_metadata_question net rp question username password) = Inr s))
   \<and> ((\<forall>c. reply_ok search_payload_ok (net c)) \<longrightarrow>
      (\<exists>s. snd (similarity_search net rp query n_results username password) = Inr s))
   \<and> ((\<forall>c. reply_ok metadata_payload_ok (net c)) \<longrightarrow>
      (\<exists>s. snd (get_metadata net rp database_names insert_arg overwrite username password)
              = Inr s))"
proof (intro conjI impI)
  assume ok: "\<forall>c. reply_ok answer_payload_ok (net c)"
  have fit: "\<exists>s. answer_question_render rp (reply_value (net c)) = Inr s" for c
  proof (rule reply_returns[where ok = answer_payload_ok and render = "answer_question_render rp"])
    show "reply_ok answer_payload_ok (net c)"
      using ok by simp
    show "\<exists>s. answer_question_render rp r = Inr s" if "answer_payload_ok r" for r
      using that by (rule answer_payload_returns)
    show "\<exists>s. answer_question_render rp (PDict [(''error'', PStr msg)]) = Inr s" for msg
      by (simp add: render_error(1)[OF raised_is_error])
  qed
  from operation_result(1) obtain c where
    "snd (answer_question net rp question username password plot mode use_views
       custom_instructions) = answer_question_render rp (reply_value (net c))" ..
  with fit[of c] show "\<exists>s. snd (answer_question net rp question username password plot mode
      use_views custom_instructions) = Inr s"
    by simp
  from operation_result(2) obtain c where
    "snd (answer_data_question net rp question username password plot use_views)
       = answer_question_render rp (reply_value (net c))" ..
  with fit[of c] show "\<exists>s. snd (answer_data_question net rp question username password plot
      use_views) = Inr s"
    by simp
next
  assume ok: "\<forall>c. reply_ok metadata_answer_payload_ok (net c)"
  have fit: "\<exists>s. answer_metadata_question_render rp (reply_value (net c)) = Inr s" for c
  proof (rule reply_returns[where ok = metadata_answer_payload_ok and render = "answer_metadata_question_render rp"])
    show "reply_ok metadata_answer_payload_ok (net c)"
      using ok by simp
    show "\<exists>s. answer_metadata_question_render rp r = Inr s" if "metadata_answer_payload_ok r" for r
      using that by (rule metadata_answer_payload_returns)
    show "\<exists>s. answer_metadata_question_render rp (PDict [(''error'', PStr msg)]) = Inr s" for msg
      by (simp add: render_error(2)[OF raised_is_error])
  qed
  from operation_result(3) obtain c where
    "snd (answer_metadata_question net rp question username password)
       = answer_metadata_question_render rp (reply_value (net c))" ..
  with fit[of c] show "\<exists>s. snd (answer_metadata_question net rp question username password)
      = Inr s"
    by simp
next
  assume ok: "\<forall>c. reply_ok search_payload_ok (net c)"
  have fit: "\<exists>s. similarity_search_render rp (reply_value (net c)) = Inr s" for c
  proof (rule reply_returns[where ok = search_payload_ok and render = "similarity_search_render rp"])
    show "reply_ok search_payload_ok (net c)"
      using ok by simp
    show "\<exists>s. similarity_search_render rp r = Inr s" if "search_payload_ok r" for r
      using that by (rule search_payload_returns)
    show "\<exists>s. similarity_search_render rp (PDict [(''error'', PStr msg)]) = Inr s" for msg
      by (simp add: render_error(3)[OF raised_is_error])
  qed
  from operation_result(4) obtain c where
    "snd (similarity_search net rp query n_results username password)
       = similarity_search_render rp (reply_value (net c))" ..
  with fit[of c] show "\<exists>s. snd (similarity_search net rp query n_results username password)
      = Inr s"
    by simp
next
  assume ok: "\<forall>c. reply_ok metadata_payload_ok (net c)"
  have fit: "\<exists>s. get_metadata_render rp database_names (reply_value (net c)) = Inr s" for c
  proof (rule reply_returns[where ok = metadata_payload_ok and render = "get_metadata_render rp database_names"])
    show "reply_ok metadata_payload_ok (net c)"
      using ok by simp
    show "\<exists>s. get_metadata_render rp database_names r = Inr s" if "metadata_payload_ok r" for r
      using that by (rule metadata_payload_returns)
    show "\<exists>s. get_metadata_render rp database_names (PDict [(''error'', PStr msg)]) = Inr s" for msg
      by (simp add: render_error(4)[OF raised_is_error])
  qed
  from operation_result(5) obtain c where
    "snd (get_metadata net rp database_names insert_arg overwrite username password)
       = get_metadata_render rp database_names (reply_value (net c))" ..
  with fit[of c] show "\<exists>s. snd (get_metadata net rp database_names insert_arg overwrite
      username password) = Inr s"
    by simp
qed

theorem C4_returns_text_on_fit_payloads_witness:
  "(\<exists>s. snd (answer_question
              (\<lambda>c. Body (PDict [(''answer'', PInt 42), (''tables_used'', PList [PStr ''bank.loans''])]))
              (\<lambda>v. []) ''How many loans?'' [] [] False ''default'' [] []) = Inr s)
   \<and> (\<exists>s. snd (answer_metadata_question (\<lambda>c. Raises ''timed out'') (\<lambda>v. [])
                ''How many loans?'' [] []) = Inr s)
   \<and> (\<exists>s. snd (similarity_search
                (\<lambda>c. Body (PDict [(''results'', PList [PDict [(''score'', PInt 1)]])]))
                (\<lambda>v. []) ''customer churn'' 2 [] []) = Inr s)
   \<and> (\<exists>s. snd (get_metadata
                (\<lambda>c. Body (PDict [(''db_schema_json'', PList [PDict [(''databaseName'', PStr ''bank'')]])]))
                (\<lambda>v. []) ''bank'' True True [] []) = Inr s)"
  using C4_returns_text_on_fit_payloads[where
      net = "\<lambda>c. Body (PDict [(''answer'', PInt 42), (''tables_used'', PList [PStr ''bank.loans''])])"
      and rp = "\<lambda>v. []" and question = "''How many loans?''" and username = "[]"
      and password = "[]" and plot = False and mode = "''default''" and use_views = "[]"
      and custom_instructions = "[]"]
    C4_returns_text_on_fit_payloads[where net = "\<lambda>c. Raises ''timed out''"
      and rp = "\<lambda>v. []" and question = "''How many loans?''" and username = "[]"
      and password = "[]"]
    C4_returns_text_on_fit_payloads[where
      net = "\<lambda>c. Body (PDict [(''results'', PList [PDict [(''score'', PInt 1)]])])"
      and rp = "\<lambda>v. []" and query = "''customer churn''" and n_results = 2 and username = "[]"
      and password = "[]"]
    C4_returns_text_on_fit_payloads[where
      net = "\<lambda>c. Body (PDict [(''db_schema_json'', PList [PDict [(''databaseName'', PStr ''bank'')]])])"
      and rp = "\<lambda>v. []" and database_names = "''bank''" and insert_arg = True
      and overwrite = True and username = "[]" and password = "[]"]
  by (simp add: reply_ok_def field_or_def result_entry_ok_def db_entry_ok_def)

text \<open>
  C4 as stated fails. A JSON array has no method \<^verbatim>\<open>get\<close>; a number cannot be joined; a
  string cannot be formatted with \<^verbatim>\<open>.4f\<close>; a number has no length. Each fault leaves
  the operation.
\<close>

theorem C4_fault_counterexample:
  "snd (answer_question (\<lambda>c. Body (PList [PInt 1])) (\<lambda>v. []) ''How many loans?'' [] [] False
          ''default'' [] []) = Inl AttributeError
   \<and> snd (answer_data_question (\<lambda>c. Body (PDict [(''tables_used'', PInt 5)])) (\<lambda>v. [])
            ''How many loans?'' [] [] False []) = Inl TypeError
   \<and> snd (similarity_search
            (\<lambda>c. Body (PDict [(''results'', PList [PDict [(''score'', PStr ''high'')]])]))
            (\<lambda>v. []) ''customer churn'' 2 [] []) = Inl ValueError
   \<and> snd (get_metadata
            (\<lambda>c. Body (PDict [(''db_schema_json'', PList [PDict [(''databaseTables'', PInt 3)]])]))
            (\<lambda>v. []) ''bank'' True True [] []) = Inl TypeError"
  by (simp add: snd_operation reply_value_def answer_question_render_def
      similarity_search_render_def get_metadata_render_def py_eval)

subsection \<open>C5: outcomes that carry an error message\<close>

text \<open>
  C5. When the call raises an exception with the text \<open>msg\<close> (line 33 wraps it as the
  entry \<^verbatim>\<open>error\<close>), every operation returns \<^verbatim>\<open>Error: \<close> followed by \<open>msg\<close>. When the
  backend answers with a JSON object that has a top-level \<^verbatim>\<open>error\<close> field \<open>v\<close>, every
  operation returns \<^verbatim>\<open>Error: \<close> followed by the text of \<open>v\<close>, which for a string is the
  string itself.
\<close>

theorem C5_error_message:
  "((\<forall>c. net c = Raises msg) \<longrightarrow>
      snd (answer_question net rp question username password plot mode use_views
             custom_instructions) = Inr (''Error: '' @ msg)
    \<and> snd (answer_data_question net rp question username password plot use_views)
        = Inr (''Error: '' @ msg)
    \<and> snd (answer_metadata_question net rp question username password)
        = Inr (''Error: '' @ msg)
    \<and> snd (similarity_search net rp query n_results username password)
        = Inr (''Error: '' @ msg)
    \<and> snd (get_metadata net rp database_names insert_arg overwrite username password)
        = Inr (''Error: '' @ msg))
   \<and> ((\<forall>c. net c = Body (PDict d)) \<and> map_of d ''error'' = Some v \<longrightarrow>
      snd (answer_question net rp question username password plot mode use_views
             custom_instructions) = Inr (''Error: '' @ py_str rp v)
    \<and> snd (answer_data_question net rp question username password plot use_views)
        = Inr (''Error: '' @ py_str rp v)
    \<and> snd (answer_metadata_question net rp question username password)
        = Inr (''Error: '' @ py_str rp v)
    \<and> snd (similarity_search net rp query n_results username password)
        = Inr (''Error: '' @ py_str rp v)
    \<and> snd (get_metadata net rp database_names insert_arg overwrite username password)
        = Inr (''Error: '' @ py_str rp v))
   \<and> py_str rp (PStr msg) = msg"
proof (intro conjI impI)
  assume "\<forall>c. net c = Raises msg"
  then have r: "\<And>c. net c = Raises msg"
    by simp
  have e: "map_of [(''error'', PStr msg)] ''error'' = Some (PStr msg)"
    by simp
  show "snd (answer_question net rp question username password plot mode use_views
          custom_instructions) = Inr (''Error: '' @ msg)"
    by (simp add: snd_answer_question[OF r] reply_value_def render_error(1)[OF e])
  show "snd (answer_data_question net rp question username password plot use_views)
          = Inr (''Error: '' @ msg)"
    by (simp add: snd_answer_data_question[OF r] reply_value_def render_error(1)[OF e])
  show "snd (answer_metadata_question net rp question username password)
          = Inr (''Error: '' @ msg)"
    by (simp add: snd_answer_metadata_question[OF r] reply_value_def render_error(2)[OF e])
  show "snd (similarity_search net rp query n_results username password)
          = Inr (''Error: '' @ msg)"
    by (simp add: snd_similarity_search[OF r] reply_value_def render_error(3)[OF e])
  show "snd (get_metadata net rp database_names insert_arg overwrite username password)
          = Inr (''Error: '' @ msg)"
    by (simp add: snd_get_metadata[OF r] reply_value_def render_error(4)[OF e])
next
  assume a: "(\<forall>c. net c = Body (PDict d)) \<and> map_of d ''error'' = Some v"
  then have r: "\<And>c. net c = Body (PDict d)" and e: "map_of d ''error'' = Some v"
    by simp_all
  show "snd (answer_question net rp question username password plot mode use_views
          custom_instructions) = Inr (''Error: '' @ py_str rp v)"
    by (simp add: snd_answer_question[OF r] reply_value_def render_error(1)[OF e])
  show "snd (answer_data_question net rp question username password plot use_views)
          = Inr (''Error: '' @ py_str rp v)"
    by (simp add: snd_answer_data_question[OF r] reply_value_def render_error(1)[OF e])
  show "snd (answer_metadata_question net rp question username password)
          = Inr (''Error: '' @ py_str rp v)"
    by (simp add: snd_answer_metadata_question[OF r] reply_value_def render_error(2)[OF e])
  show "snd (similarity_search net rp query n_results username password)
          = Inr (''Error: '' @ py_str rp v)"
    by (simp add: snd_similarity_search[OF r] reply_value_def render_error(3)[OF e])
  show "snd (get_metadata net rp database_names insert_arg overwrite username password)
          = Inr (''Error: '' @ py_str rp v)"
    by (simp add: snd_get_metadata[OF r] reply_value_def render_error(4)[OF e])
next
  show "py_str rp (PStr msg) = msg"
    by simp
qed

theorem C5_error_message_witness:
  "snd (answer_question (\<lambda>c. Raises ''timed out'') (\<lambda>v. []) ''How many loans?'' [] [] False
          ''default'' [] []) = Inr ''Error: timed out''
   \<and> snd (similarity_search (\<lambda>c. Raises ''timed out'') (\<lambda>v. []) ''customer churn'' 2 [] [])
       = Inr ''Error: timed out''
   \<and> snd (answer_question (\<lambda>c. Body (PDict [(''error'', PStr ''invalid credentials'')]))
            (\<lambda>v. []) ''How many loans?'' [] [] False ''default'' [] [])
       = Inr ''Error: invalid credentials''
   \<and> snd (get_metadata (\<lambda>c. Body (PDict [(''error'', PStr ''invalid credentials'')]))
            (\<lambda>v. []) ''bank'' True True [] [])
       = Inr ''Error: invalid credentials''"
  using C5_error_message[where net = "\<lambda>c. Raises ''timed out''" and msg = "''timed out''"
      and rp = "\<lambda>v. []" and question = "''How many loans?''" and username = "[]"
      and password = "[]" and plot = False and mode = "''default''" and use_views = "[]"
      and custom_instructions = "[]" and query = "''customer churn''" and n_results = 2]
    C5_error_message[where net = "\<lambda>c. Body (PDict [(''error'', PStr ''invalid credentials'')])"
      and d = "[(''error'', PStr ''invalid credentials'')]" and v = "PStr ''invalid credentials''"
      and rp = "\<lambda>v. []" and question = "''How many loans?''" and username = "[]"
      and password = "[]" and plot = False and mode = "''default''" and use_views = "[]"
      and custom_instructions = "[]" and database_names = "''bank''" and insert_arg = True
      and overwrite = True]
  by simp

subsection \<open>C6: the sentence of get_metadata\<close>

text \<open>
  C6, as the code has it. For a payload without a top-level \<^verbatim>\<open>error\<close> field whose
  \<^verbatim>\<open>db_schema_json\<close> is a list of objects (each name, if any, a string; each
  \<^verbatim>\<open>databaseTables\<close>, if any, a list), the sentence reports the sum of the lengths of the
  \<^verbatim>\<open>databaseTables\<close> lists (none counts as empty) and the names (none counts as
  \<^verbatim>\<open>Unknown\<close>) joined by a comma and a space in the order of the entries; when the list
  has no entry, the sentence names the requested \<^verbatim>\<open>database_names\<close> instead. For a
  non-empty payload without \<^verbatim>\<open>db_schema_json\<close> the count is 0 and the sentence names
  \<^verbatim>\<open>database_names\<close>. Scenario 4 comes out as stated.
\<close>

theorem C6_metadata_sentence:
  "(''error'' \<notin> fst ` set d \<and> map_of d ''db_schema_json'' = Some (PList (map PDict es))
      \<and> list_all db_entry_ok es \<longrightarrow>
      get_metadata_render rp database_names (PDict d) =
        Inr (''Successfully retrieved metadata for ''
             @ str_nat (sum_list (map db_entry_tables es))
             @ '' tables from database(s): ''
             @ (if es = [] then database_names else join_strs '', '' (map db_entry_name es))
             @ ''.''))
   \<and> (d \<noteq> [] \<and> ''error'' \<notin> fst ` set d \<and> map_of d ''db_schema_json'' = None \<longrightarrow>
      get_metadata_render rp database_names (PDict d) =
        Inr (''Successfully retrieved metadata for 0 tables from database(s): ''
             @ database_names @ ''.''))
   \<and> (map_of e ''databaseName'' = None \<longrightarrow> db_entry_name e = ''Unknown'')
   \<and> (map_of e ''databaseName'' = Some (PStr s) \<longrightarrow> db_entry_name e = s)
   \<and> (map_of e ''databaseTables'' = None \<longrightarrow> db_entry_tables e = 0)
   \<and> (map_of e ''databaseTables'' = Some (PList ts) \<longrightarrow> db_entry_tables e = length ts)
   \<and> get_metadata_render rp ''bank''
        (PDict [(''db_schema_json'',
                 PList [PDict [(''databaseName'', PStr ''bank''),
                               (''databaseTables'', PList [PDict [], PDict [], PDict []])]])])
      = Inr ''Successfully retrieved metadata for 3 tables from database(s): bank.''"
proof (intro conjI impI)
  show "get_metadata_render rp ''bank''
        (PDict [(''db_schema_json'',
                 PList [PDict [(''databaseName'', PStr ''bank''),
                               (''databaseTables'', PList [PDict [], PDict [], PDict []])]])])
      = Inr ''Successfully retrieved metadata for 3 tables from database(s): bank.''"
    by (simp add: get_metadata_render_def py_eval)
next
  assume "''error'' \<notin> fst ` set d \<and> map_of d ''db_schema_json'' = Some (PList (map PDict es))
      \<and> list_all db_entry_ok es"
  then show "get_metadata_render rp database_names (PDict d) =
        Inr (''Successfully retrieved metadata for ''
             @ str_nat (sum_list (map db_entry_tables es))
             @ '' tables from database(s): ''
             @ (if es = [] then database_names else join_strs '', '' (map db_entry_name es))
             @ ''.'')"
    using get_metadata_render_entries[of d es rp database_names]
    by (simp add: spec_metadata_sentence_def)
next
  assume "d \<noteq> [] \<and> ''error'' \<notin> fst ` set d \<and> map_of d ''db_schema_json'' = None"
  then show "get_metadata_render rp database_names (PDict d) =
        Inr (''Successfully retrieved metadata for 0 tables from database(s): ''
             @ database_names @ ''.'')"
    using get_metadata_render_absent[of d rp database_names]
    by (simp add: spec_metadata_sentence_def str_nat_digit digit_char_def)
qed (simp_all add: db_entry_name_def db_entry_tables_def field_or_def)

theorem C6_metadata_sentence_witness:
  "get_metadata_render (\<lambda>v. []) ''sales''
     (PDict [(''db_schema_json'',
              PList [PDict [(''databaseName'', PStr ''bank''),
                            (''databaseTables'', PList [PDict [], PDict []])],
                     PDict [(''databaseTables'', PList [PDict []])]])])
     = Inr ''Successfully retrieved metadata for 3 tables from database(s): bank, Unknown.''
   \<and> get_metadata_render (\<lambda>v. []) ''sales'' (PDict [(''status'', PStr ''ok'')])
     = Inr ''Successfully retrieved metadata for 0 tables from database(s): sales.''"
  using C6_metadata_sentence[where rp = "\<lambda>v. []" and database_names = "''sales''"
      and d = "[(''db_schema_json'',
              PList [PDict [(''databaseName'', PStr ''bank''),
                            (''databaseTables'', PList [PDict [], PDict []])],
                     PDict [(''databaseTables'', PList [PDict []])]])]"
      and es = "[[(''databaseName'', PStr ''bank''),
                  (''databaseTables'', PList [PDict [], PDict []])],
                 [(''databaseTables'', PList [PDict []])]]"]
    C6_metadata_sentence[where rp = "\<lambda>v. []" and database_names = "''sales''"
      and d = "[(''status'', PStr ''ok'')]"]
  by (simp add: db_entry_ok_def db_entry_name_def db_entry_tables_def field_or_def
      str_nat_digit digit_char_def)

text \<open>
  C6 as stated fails. With \<^verbatim>\<open>db_schema_json\<close> present and empty the sentence does not
  list the (no) names of the entries but falls back to \<^verbatim>\<open>database_names\<close>; and for the
  empty object, where \<^verbatim>\<open>db_schema_json\<close> is absent, there is no sentence at all.
\<close>

theorem C6_empty_schema_counterexample:
  "get_metadata_render (\<lambda>v. []) ''bank'' (PDict [(''db_schema_json'', PList [])])
     = Inr ''Successfully retrieved metadata for 0 tables from database(s): bank.''
   \<and> get_metadata_render (\<lambda>v. []) ''bank'' (PDict []) = Inr ''Failed to get metadata''"
  by (simp add: get_metadata_render_def py_eval)

subsection \<open>C7: the list of similarity_search\<close>

text \<open>
  C7, as the code has it. For a non-empty payload without a top-level \<^verbatim>\<open>error\<close> field:
  without \<^verbatim>\<open>results\<close> the operation returns the text \<^verbatim>\<open>No results found ...\<close>. When
  \<^verbatim>\<open>results\<close> is a list of objects whose score, if any, is a float, a bool or an int
  below \<open>2^53\<close> in magnitude, it returns the header and the entries numbered from 1 and
  separated by an empty line, each with \<^verbatim>\<open>table_name\<close> (default \<^verbatim>\<open>Unknown\<close>), the score
  with four decimals (default 0, printed \<^verbatim>\<open>0.0000\<close>) and \<^verbatim>\<open>description\<close> (default
  \<^verbatim>\<open>No description available\<close>). Scenario 3 comes out as stated, its score being the
  double nearest to 0.8765.
\<close>

theorem C7_search_results:
  "(d \<noteq> [] \<and> ''error'' \<notin> fst ` set d \<and> map_of d ''results'' = None \<longrightarrow>
      similarity_search_render rp (PDict d) =
        Inr ''No results found or unable to perform similarity search.'')
   \<and> (''error'' \<notin> fst ` set d \<and> map_of d ''results'' = Some (PList (map PDict es))
      \<and> list_all result_entry_ok es \<longrightarrow>
      similarity_search_render rp (PDict d) =
        Inr (''Search Results:\<newline>\<newline>''
             @ join_strs ''\<newline>\<newline>''
                 (map (\<lambda>(i, e). spec_result_entry rp i e) (enumerate 1 es))))
   \<and> (map_of e ''table_name'' = None \<and> map_of e ''score'' = None
      \<and> map_of e ''description'' = None \<longrightarrow>
      spec_result_entry rp i e =
        str_nat i @ ''. Table: Unknown\<newline>   Score: 0.0000\<newline>   Description: No description available'')
   \<and> similarity_search_render rp
        (PDict [(''results'',
                 PList [PDict [(''table_name'', PStr ''bank.customers''),
                               (''score'', PFloat (Finite False 7894810146780479 (- 53))),
                               (''description'', PStr ''Customer master'')]])])
      = Inr ''Search Results:\<newline>\<newline>1. Table: bank.customers\<newline>   Score: 0.8765\<newline>   Description: Customer master''"
proof (intro conjI impI)
  show "similarity_search_render rp
        (PDict [(''results'',
                 PList [PDict [(''table_name'', PStr ''bank.customers''),
                               (''score'', PFloat (Finite False 7894810146780479 (- 53))),
                               (''description'', PStr ''Customer master'')]])])
      = Inr ''Search Results:\<newline>\<newline>1. Table: bank.customers\<newline>   Score: 0.8765\<newline>   Description: Customer master''"
    by (simp add: similarity_search_render_def py_eval)
next
  assume "map_of e ''table_name'' = None \<and> map_of e ''score'' = None
      \<and> map_of e ''description'' = None"
  then show "spec_result_entry rp i e =
        str_nat i @ ''. Table: Unknown\<newline>   Score: 0.0000\<newline>   Description: No description available''"
    by (simp add: spec_result_entry_def field_or_def str_nat_digit digit_char_def)
qed (simp_all add: similarity_search_render_absent similarity_search_render_entries)

theorem C7_search_results_witness:
  "similarity_search_render (\<lambda>v. [])
     (PDict [(''results'',
              PList [PDict [(''table_name'', PStr ''bank.customers''), (''score'', PInt 1)],
                     PDict []])])
     = Inr ''Search Results:\<newline>\<newline>1. Table: bank.customers\<newline>   Score: 1.0000\<newline>   Description: No description available\<newline>\<newline>2. Table: Unknown\<newline>   Score: 0.0000\<newline>   Description: No description available''
   \<and> similarity_search_render (\<lambda>v. []) (PDict [(''status'', PStr ''ok'')])
     = Inr ''No results found or unable to perform similarity search.''"
  using C7_search_results[where rp = "\<lambda>v. []"
      and d = "[(''results'',
              PList [PDict [(''table_name'', PStr ''bank.customers''), (''score'', PInt 1)],
                     PDict []])]"
      and es = "[[(''table_name'', PStr ''bank.customers''), (''score'', PInt 1)], []]"]
    C7_search_results[where rp = "\<lambda>v. []" and d = "[(''status'', PStr ''ok'')]"]
  by (simp add: result_entry_ok_def spec_result_entry_def field_or_def
      str_nat_digit digit_char_def)

text \<open>
  C7 as stated fails on the empty object: \<^verbatim>\<open>results\<close> is absent, yet the operation
  returns the no-response text of line 181, not \<^verbatim>\<open>No results found ...\<close>.
\<close>

theorem C7_empty_object_counterexample:
  "similarity_search_render (\<lambda>v. []) (PDict []) = Inr ''Failed to get a response''"
  by (simp add: similarity_search_render_def early_return_def)

subsection \<open>C8: the body that answer_question posts\<close>

text \<open>
  C8. \<^verbatim>\<open>answer_question\<close> sends exactly one call, a POST whose JSON body always holds
  \<^verbatim>\<open>question\<close>, \<^verbatim>\<open>plot\<close>, \<^verbatim>\<open>mode\<close>, \<^verbatim>\<open>markdown_response\<close> as true and \<^verbatim>\<open>verbose\<close> as true;
  it holds \<^verbatim>\<open>use_views\<close> exactly when that argument is not empty, and then with the
  argument as it is, and the same for \<^verbatim>\<open>custom_instructions\<close>. The body has no other
  key, and no key twice.
\<close>

theorem C8_answer_question_body:
  "map call_verb (fst (answer_question net rp question username password plot mode use_views
      custom_instructions)) = [POST]
   \<and> map call_json (fst (answer_question net rp question username password plot mode use_views
      custom_instructions))
     = [Some (answer_question_body question plot mode use_views custom_instructions)]
   \<and> map_of (answer_question_body question plot mode use_views custom_instructions) ''question''
     = Some (PStr question)
   \<and> map_of (answer_question_body question plot mode use_views custom_instructions) ''plot''
     = Some (PBool plot)
   \<and> map_of (answer_question_body question plot mode use_views custom_instructions) ''mode''
     = Some (PStr mode)
   \<and> map_of (answer_question_body question plot mode use_views custom_instructions)
       ''markdown_response'' = Some (PBool True)
   \<and> map_of (answer_question_body question plot mode use_views custom_instructions) ''verbose''
     = Some (PBool True)
   \<and> map_of (answer_question_body question plot mode use_views custom_instructions) ''use_views''
     = (if use_views = [] then None else Some (PStr use_views))
   \<and> map_of (answer_question_body question plot mode use_views custom_instructions)
       ''custom_instructions''
     = (if custom_instructions = [] then None else Some (PStr custom_instructions))
   \<and> set (map fst (answer_question_body question plot mode use_views custom_instructions))
     = {''question'', ''plot'', ''mode'', ''markdown_response'', ''verbose''}
       \<union> (if use_views = [] then {} else {''use_views''})
       \<union> (if custom_instructions = [] then {} else {''custom_instructions''})
   \<and> distinct (map fst (answer_question_body question plot mode use_views custom_instructions))"
  by (simp add: answer_question_def request_POST Let_def answer_question_body_def)

theorem C8_answer_question_body_witness:
  "map call_json (fst (answer_question (\<lambda>c. Body PNone) (\<lambda>v. []) ''How many loans?'' [] [] False
      ''default'' ''bank.loans'' []))
     = [Some [(''question'', PStr ''How many loans?''), (''plot'', PBool False),
              (''mode'', PStr ''default''), (''markdown_response'', PBool True),
              (''verbose'', PBool True), (''use_views'', PStr ''bank.loans'')]]"
  using C8_answer_question_body[of "\<lambda>c. Body PNone" "\<lambda>v. []" "''How many loans?''" "[]" "[]"
      False "''default''" "''bank.loans''" "[]"]
  by (simp add: answer_question_body_def)

subsection \<open>C9: credentials\<close>

text \<open>
  C9. Each of the five operations sends exactly one call, and that call carries the pair
  (username, password) as its credentials if both strings are non-empty and no
  credentials otherwise.
\<close>

theorem C9_credentials:
  "map call_auth (fst (answer_question net rp question username password plot mode use_views
      custom_instructions))
     = [if username \<noteq> [] \<and> password \<noteq> [] then Some (username, password) else None]
   \<and> map call_auth (fst (answer_data_question net rp question username password plot use_views))
     = [if username \<noteq> [] \<and> password \<noteq> [] then Some (username, password) else None]
   \<and> map call_auth (fst (answer_metadata_question net rp question username password))
     = [if username \<noteq> [] \<and> password \<noteq> [] then Some (username, password) else None]
   \<and> map call_auth (fst (similarity_search net rp query n_results username password))
     = [if username \<noteq> [] \<and> password \<noteq> [] then Some (username, password) else None]
   \<and> map call_auth (fst (get_metadata net rp database_names insert_arg overwrite username
      password))
     = [if username \<noteq> [] \<and> password \<noteq> [] then Some (username, password) else None]"
  by (simp add: answer_question_def answer_data_question_def answer_metadata_question_def
      similarity_search_def get_metadata_def request_POST request_GET Let_def basic_auth_def)

theorem C9_credentials_witness:
  "map call_auth (fst (answer_question (\<lambda>c. Body PNone) (\<lambda>v. []) ''q'' ''admin'' ''secret'' False
      ''default'' [] [])) = [Some (''admin'', ''secret'')]
   \<and> map call_auth (fst (get_metadata (\<lambda>c. Body PNone) (\<lambda>v. []) ''bank'' True True ''admin'' []))
     = [None]
   \<and> map call_auth (fst (similarity_search (\<lambda>c. Body PNone) (\<lambda>v. []) ''q'' 5 [] ''secret''))
     = [None]"
  using C9_credentials[of "\<lambda>c. Body PNone" "\<lambda>v. []" "''q''" "''admin''" "''secret''" False
      "''default''" "[]" "[]"]
    C9_credentials[where net = "\<lambda>c. Body PNone" and rp = "\<lambda>v. []" and database_names = "''bank''"
      and insert_arg = True and overwrite = True and username = "''admin''" and password = "[]"]
    C9_credentials[where net = "\<lambda>c. Body PNone" and rp = "\<lambda>v. []" and query = "''q''"
      and n_results = 5 and username = "[]" and password = "''secret''"]
  by simp

subsection \<open>C10: an empty list of results\<close>

text \<open>
  C10. For a payload without a top-level \<^verbatim>\<open>error\<close> field whose \<^verbatim>\<open>results\<close> field is the
  empty list, \<^verbatim>\<open>similarity_search\<close> returns the header \<^verbatim>\<open>Search Results:\<close> and two
  newlines, with no entry after it, and not the text \<^verbatim>\<open>No results found ...\<close>.
\<close>

theorem C10_empty_results:
  assumes "''error'' \<notin> fst ` set d" and "map_of d ''results'' = Some (PList [])"
  shows "similarity_search_render rp (PDict d) = Inr ''Search Results:\<newline>\<newline>''
       \<and> similarity_search_render rp (PDict d)
           \<noteq> Inr ''No results found or unable to perform similarity search.''"
proof -
  from assms(2) have "(''results'', PList []) \<in> set d"
    by (rule map_of_SomeD)
  then have "''results'' \<in> fst ` set d" and "d \<noteq> []"
    by force+
  with assms show ?thesis
    by (simp add: similarity_search_render_def early_return_pass)
qed

theorem C10_empty_results_witness:
  "similarity_search_render (\<lambda>v. []) (PDict [(''results'', PList [])])
     = Inr ''Search Results:\<newline>\<newline>''
   \<and> similarity_search_render (\<lambda>v. []) (PDict [(''results'', PList [])])
       \<noteq> Inr ''No results found or unable to perform similarity search.''"
  by (rule C10_empty_results) simp_all

end
